theory Spec2Isabelle
  imports Complex_Main "HOL-Library.Word"
begin

section \<open>Conventions of the embedding\<close>

text \<open>
  The Go sources of lawbench are embedded shallowly.

  \<^item> Outside the USL fitter a \<^verbatim>\<open>float64\<close> that the code only ever holds finite is a
    \<^typ>\<open>real\<close>: arithmetic is exact, rounding is not modelled. Where the code itself
    produces \<^verbatim>\<open>+Inf\<close> or \<^verbatim>\<open>NaN\<close> (the peak capacity of the autoscaler) the value
    is an \<open>xfloat\<close>.
  \<^item> In the USL fitter the result depends on how the intermediate results are rounded:
    there a \<^verbatim>\<open>float64\<close> is an \<open>f64\<close> and every operation rounds as IEEE 754 binary64
    does.
  \<^item> \<^verbatim>\<open>time.Now()\<close> is an argument \<open>now\<close> of the function that reads the clock; a
    \<^verbatim>\<open>time.Time\<close> and a \<^verbatim>\<open>time.Duration\<close> are integers counting nanoseconds.
  \<^item> A method with a pointer receiver returns its result together with the updated
    receiver.
  \<^item> The \<^verbatim>\<open>Reason\<close> and \<^verbatim>\<open>Mitigation\<close> texts of the results (\<^verbatim>\<open>fmt.Sprintf\<close> of
    floats) are left out, and with them the velocity that only these texts print.
\<close>

section \<open>Constants (src/runtime.go)\<close>

definition FeigenbaumDelta :: real where
  "FeigenbaumDelta = 4.6692"

definition CriticalityScalingRatio :: real where
  "CriticalityScalingRatio = 1.0 / FeigenbaumDelta"

record SystemDNAConstraint =
  MinR :: real
  MaxR :: real

definition StableDNAConstraint :: SystemDNAConstraint where
  "StableDNAConstraint = \<lparr>MinR = 1.0, MaxR = 3.0\<rparr>"

section \<open>System integrity metrics and the r model (src/runtime.go)\<close>

text \<open>
  The counts are Go \<^verbatim>\<open>int\<close>s. The code only compares them and converts them to
  \<^verbatim>\<open>float64\<close>, so they are modelled as unbounded integers, of which the machine
  integers are a part.
\<close>

record SystemIntegrityMetrics =
  ImmutableOpsVerified :: int
  MutableSharedState :: int
  IsolationScore :: real
  SupervisedProcesses :: int
  UnsupervisedProcesses :: int
  MeanTimeToRestart :: real
  CriticalCoreLOC :: int
  ExtensibleLOC :: int
  ScalingRatio :: real
  FeigenbaumCompliance :: bool
  DeltaCriticalCore :: real
  DeltaComplexity :: real
  EstimatedCoupling :: real
  InstabilityBoundaryDistance :: real
  StableEquilibrium :: bool

definition max_int :: "int \<Rightarrow> int \<Rightarrow> int" where
  "max_int a b = (if a > b then a else b)"

definition isolationPenalty :: "SystemIntegrityMetrics \<Rightarrow> real" where
  "isolationPenalty metrics =
     real_of_int (MutableSharedState metrics) /
     real_of_int (max_int (ImmutableOpsVerified metrics) 1)"

definition supervisionPenalty :: "SystemIntegrityMetrics \<Rightarrow> real" where
  "supervisionPenalty metrics =
     real_of_int (UnsupervisedProcesses metrics) /
     real_of_int (max_int (SupervisedProcesses metrics) 1)"

definition scalingPenalty :: "SystemIntegrityMetrics \<Rightarrow> real" where
  "scalingPenalty metrics = ScalingRatio metrics / CriticalityScalingRatio"

definition CalculateSystemDNA :: "SystemIntegrityMetrics \<Rightarrow> real" where
  "CalculateSystemDNA metrics =
     1.0 + isolationPenalty metrics + supervisionPenalty metrics + scalingPenalty metrics"

section \<open>r dynamics and the recovery pulse (src/runtime.go)\<close>

record RDynamics =
  InitialR :: real
  CurrentR :: real
  TargetR :: real
  History :: "real list"
  RecoveryEvents :: int
  InSaturationZone :: bool

definition NewRDynamics :: "real \<Rightarrow> RDynamics" where
  "NewRDynamics initialR =
     \<lparr>InitialR = initialR,
      CurrentR = initialR,
      TargetR = MaxR StableDNAConstraint * 0.8,
      History = [initialR],
      RecoveryEvents = 0,
      InSaturationZone = (initialR \<ge> MaxR StableDNAConstraint)\<rparr>"

text \<open>
  The correction pulse of \<^verbatim>\<open>ApplyRecovery\<close> (\<^verbatim>\<open>correctionPulse\<close>): the desired pulse,
  capped by \<open>1/\<delta>\<close>.
\<close>

definition recoveryPulse :: "RDynamics \<Rightarrow> SystemIntegrityMetrics \<Rightarrow> real" where
  "recoveryPulse rd metrics =
     (let isolationRatio = real_of_int (MutableSharedState metrics) /
                           real_of_int (max_int (ImmutableOpsVerified metrics) 1);
          instabilityDepth = CurrentR rd - MaxR StableDNAConstraint;
          correctionFactor = 1.0 / (1.0 + isolationRatio);
          maxSafePulse = CriticalityScalingRatio;
          desiredPulse = instabilityDepth * correctionFactor * 0.5
      in min desiredPulse maxSafePulse)"

definition ApplyRecovery :: "RDynamics \<Rightarrow> SystemIntegrityMetrics \<Rightarrow> real \<times> RDynamics" where
  "ApplyRecovery rd metrics =
     (if \<not> InSaturationZone rd then (CurrentR rd, rd)
      else
        let newR0 = CurrentR rd - recoveryPulse rd metrics;
            newR1 = (if \<bar>newR0 - MaxR StableDNAConstraint\<bar> < 0.0001
                     then MaxR StableDNAConstraint * 0.999 else newR0);
            newR = (if newR1 < MinR StableDNAConstraint
                    then MinR StableDNAConstraint else newR1)
        in (newR,
            rd\<lparr>CurrentR := newR,
               History := History rd @ [newR],
               RecoveryEvents := RecoveryEvents rd + 1,
               InSaturationZone := (newR \<ge> MaxR StableDNAConstraint)\<rparr>))"

text \<open>
  The loop of \<^verbatim>\<open>ApplyRecoveryUntilStable\<close>; the first argument is the number of
  iterations still allowed, \<^verbatim>\<open>maxIterations - iterations\<close>.
\<close>

fun recoveryLoop :: "nat \<Rightarrow> SystemIntegrityMetrics \<Rightarrow> RDynamics \<Rightarrow> int \<Rightarrow> RDynamics \<times> int" where
  "recoveryLoop 0 metrics rd iterations = (rd, iterations)"
| "recoveryLoop (Suc k) metrics rd iterations =
     (if InSaturationZone rd
      then recoveryLoop k metrics (snd (ApplyRecovery rd metrics)) (iterations + 1)
      else (rd, iterations))"

definition ApplyRecoveryUntilStable ::
  "RDynamics \<Rightarrow> SystemIntegrityMetrics \<Rightarrow> int \<Rightarrow> (real \<times> int) \<times> RDynamics" where
  "ApplyRecoveryUntilStable rd metrics maxIterations =
     (let (rd', iterations) = recoveryLoop (nat maxIterations) metrics rd 0
      in ((CurrentR rd', iterations), rd'))"


section \<open>The governor (second part of src/autoscaler_test.go)\<close>

text \<open>
  \<^verbatim>\<open>t.Sub(u)\<close> of package time: the difference as a \<^verbatim>\<open>Duration\<close>, which is an
  \<^verbatim>\<open>int64\<close> of nanoseconds and saturates at its bounds.
\<close>

definition maxDuration :: int where
  "maxDuration = 2 ^ 63 - 1"

definition minDuration :: int where
  "minDuration = - (2 ^ 63)"

definition Sub :: "int \<Rightarrow> int \<Rightarrow> int" where
  "Sub t u =
     (let d = t - u
      in if d > maxDuration then maxDuration
         else if d < minDuration then minDuration
         else d)"

definition Second :: int where
  "Second = 1000000000"

datatype ActionType =
  ActionStable | ActionWarning | ActionPacing | ActionThrottle | ActionBlockDeploy | ActionRestart

record Action =
  Type :: ActionType
  Metrics :: SystemIntegrityMetrics
  Timestamp :: int

record Governor =
  rdynamics :: RDynamics
  lastCheck :: int
  checkInterval :: int
  warningThreshold :: real
  dangerThreshold :: real
  saturationThreshold :: real
  inThrottleMode :: bool
  throttleEnteredAt :: int
  throttleMinDuration :: int
  throttleExitThreshold :: real
  warnings :: int
  throttleEvents :: int
  deployBlocked :: int

text \<open>
  \<^verbatim>\<open>NewGovernor\<close>. The fields the composite literal leaves out have Go's zero value;
  the zero \<^verbatim>\<open>time.Time\<close> is the instant 0.
\<close>

definition NewGovernor :: "real \<Rightarrow> int \<Rightarrow> Governor" where
  "NewGovernor initialR now =
     \<lparr>rdynamics =
        \<lparr>InitialR = initialR,
         CurrentR = initialR,
         TargetR = 2.4,
         History = [initialR],
         RecoveryEvents = 0,
         InSaturationZone = (initialR \<ge> 3.0)\<rparr>,
      lastCheck = now,
      checkInterval = Second,
      warningThreshold = 2.8,
      dangerThreshold = 2.9,
      saturationThreshold = 3.0,
      inThrottleMode = False,
      throttleEnteredAt = 0,
      throttleMinDuration = 60 * Second,
      throttleExitThreshold = 2.0,
      warnings = 0,
      throttleEvents = 0,
      deployBlocked = 0\<rparr>"

text \<open>
  Phase II of \<^verbatim>\<open>CheckStructuralIntegrity\<close>, the runtime state. \<open>saturationBranch\<close> is
  the body of \<^verbatim>\<open>if currentR >= g.saturationThreshold || g.inThrottleMode\<close>: the exit test
  of the hysteresis, then the block that enters throttle mode, which the code runs also
  after the exit test has cleared the mode. \<open>g\<close> is the governor after the bookkeeping of
  the first lines.
\<close>

definition saturationBranch ::
  "Governor \<Rightarrow> SystemIntegrityMetrics \<Rightarrow> int \<Rightarrow> real \<Rightarrow> Action \<times> Governor" where
  "saturationBranch g metrics now currentR =
     (let throttle = \<lparr>Type = ActionThrottle, Metrics = metrics, Timestamp = now\<rparr>;
          timeSinceThrottle = Sub now (throttleEnteredAt g)
      in if inThrottleMode g \<and>
            \<not> (timeSinceThrottle \<ge> throttleMinDuration g \<and> currentR < throttleExitThreshold g)
         then (throttle, g)
         else
           let g1 = (if inThrottleMode g then g\<lparr>inThrottleMode := False\<rparr> else g);
               g2 = (if \<not> inThrottleMode g1
                     then g1\<lparr>inThrottleMode := True,
                             throttleEnteredAt := now,
                             throttleEvents := throttleEvents g1 + 1\<rparr>
                     else g1)
           in (throttle, g2))"

definition runtimeZone ::
  "Governor \<Rightarrow> SystemIntegrityMetrics \<Rightarrow> int \<Rightarrow> real \<Rightarrow> Action \<times> Governor" where
  "runtimeZone g metrics now currentR =
     (if currentR \<ge> saturationThreshold g \<or> inThrottleMode g
      then saturationBranch g metrics now currentR
      else if currentR \<ge> dangerThreshold g
      then (\<lparr>Type = ActionPacing, Metrics = metrics, Timestamp = now\<rparr>, g)
      else if currentR \<ge> warningThreshold g
      then (\<lparr>Type = ActionWarning, Metrics = metrics, Timestamp = now\<rparr>,
            g\<lparr>warnings := warnings g + 1\<rparr>)
      else (\<lparr>Type = ActionStable, Metrics = metrics, Timestamp = now\<rparr>, g))"

text \<open>
  The first lines of \<^verbatim>\<open>CheckStructuralIntegrity\<close>: the current r is stored and appended
  to the history, the saturation flag and the time of the last check are updated.
\<close>

definition recordR :: "Governor \<Rightarrow> real \<Rightarrow> int \<Rightarrow> Governor" where
  "recordR g currentR now =
     g\<lparr>rdynamics := (rdynamics g)
          \<lparr>CurrentR := currentR,
           History := History (rdynamics g) @ [currentR],
           InSaturationZone := (currentR \<ge> saturationThreshold g)\<rparr>,
       lastCheck := now\<rparr>"

definition CheckStructuralIntegrity ::
  "Governor \<Rightarrow> SystemIntegrityMetrics \<Rightarrow> int \<Rightarrow> Action \<times> Governor" where
  "CheckStructuralIntegrity g metrics now =
     (let currentR = CalculateSystemDNA metrics;
          g0 = recordR g currentR now;
          block = (\<lparr>Type = ActionBlockDeploy, Metrics = metrics, Timestamp = now\<rparr>,
                   g0\<lparr>deployBlocked := deployBlocked g0 + 1\<rparr>)
      in if DeltaCriticalCore metrics > 0 \<or> DeltaComplexity metrics > 0
         then if DeltaCriticalCore metrics = 0 \<and> DeltaComplexity metrics > 0
              then block
              else let growthRatio = DeltaComplexity metrics / DeltaCriticalCore metrics;
                       maxRatio = FeigenbaumDelta
                   in if growthRatio > maxRatio then block
                      else runtimeZone g0 metrics now currentR
         else runtimeZone g0 metrics now currentR)"

definition Governor_ApplyRecovery :: "Governor \<Rightarrow> SystemIntegrityMetrics \<Rightarrow> bool \<times> Governor" where
  "Governor_ApplyRecovery g metrics =
     (let ((finalR, iterations), rd') = ApplyRecoveryUntilStable (rdynamics g) metrics 20;
          g1 = g\<lparr>rdynamics := rd'\<rparr>
      in if finalR \<ge> saturationThreshold g1 then (False, g1)
         else (True, g1\<lparr>throttleEvents := throttleEvents g1 + iterations\<rparr>))"

text \<open>
  What every governor built by \<open>NewGovernor\<close> keeps: the thresholds of the constructor,
  and a saturation flag that says whether the current r is at or above 3.0.
\<close>

definition standardThresholds :: "Governor \<Rightarrow> bool" where
  "standardThresholds g \<longleftrightarrow>
     warningThreshold g = 2.8 \<and> dangerThreshold g = 2.9 \<and> saturationThreshold g = 3.0 \<and>
     throttleMinDuration g = 60 * Second \<and> throttleExitThreshold g = 2.0"

definition flagConsistent :: "RDynamics \<Rightarrow> bool" where
  "flagConsistent rd \<longleftrightarrow> InSaturationZone rd = (CurrentR rd \<ge> 3.0)"

definition deployBlockedBy :: "SystemIntegrityMetrics \<Rightarrow> bool" where
  "deployBlockedBy metrics \<longleftrightarrow>
     (DeltaCriticalCore metrics = 0 \<and> DeltaComplexity metrics > 0) \<or>
     (DeltaCriticalCore metrics > 0 \<and>
      DeltaComplexity metrics / DeltaCriticalCore metrics > FeigenbaumDelta)"

text \<open>Concrete inputs used below.\<close>

definition metrics0 :: SystemIntegrityMetrics where
  "metrics0 =
     \<lparr>ImmutableOpsVerified = 100, MutableSharedState = 0, IsolationScore = 0,
      SupervisedProcesses = 50, UnsupervisedProcesses = 0, MeanTimeToRestart = 0,
      CriticalCoreLOC = 0, ExtensibleLOC = 0, ScalingRatio = 0.2,
      FeigenbaumCompliance = False, DeltaCriticalCore = 0, DeltaComplexity = 0,
      EstimatedCoupling = 0, InstabilityBoundaryDistance = 0, StableEquilibrium = False\<rparr>"

definition metricsHot :: SystemIntegrityMetrics where
  "metricsHot = metrics0\<lparr>MutableSharedState := 220, ScalingRatio := 0\<rparr>"

definition metricsCool :: SystemIntegrityMetrics where
  "metricsCool = metrics0\<lparr>ScalingRatio := 0\<rparr>"

definition metricsDebt :: SystemIntegrityMetrics where
  "metricsDebt = metricsHot\<lparr>DeltaCriticalCore := 0, DeltaComplexity := 100\<rparr>"

definition metricsRatio :: SystemIntegrityMetrics where
  "metricsRatio = metrics0\<lparr>DeltaCriticalCore := 50, DeltaComplexity := 470\<rparr>"

definition throttledGovernor :: Governor where
  "throttledGovernor = snd (CheckStructuralIntegrity (NewGovernor 2.0 0) metricsHot 0)"


section \<open>The autoscaler policy (second part of src/examples/simple-http/load_test.js)\<close>

text \<open>
  A \<^verbatim>\<open>float64\<close> that may be infinite or not a number. \<open>go_sqrt\<close> is \<^verbatim>\<open>math.Sqrt\<close>
  (\<^verbatim>\<open>NaN\<close> below zero), \<open>float_ge\<close> is \<^verbatim>\<open>>=\<close> with a finite left operand (false
  against \<^verbatim>\<open>+Inf\<close> and \<^verbatim>\<open>NaN\<close>), \<open>xtimes\<close> multiplies by a finite constant,
  \<open>xfloor\<close> is \<^verbatim>\<open>math.Floor\<close> and \<open>xdiv\<close> divides two finite numbers, the divisor
  being a converted integer (so a zero divisor is \<^verbatim>\<open>+0\<close>).
\<close>

datatype xfloat = Fin real | PosInf | NegInf | NaN

definition go_sqrt :: "real \<Rightarrow> xfloat" where
  "go_sqrt x = (if x < 0 then NaN else Fin (sqrt x))"

fun float_ge :: "real \<Rightarrow> xfloat \<Rightarrow> bool" where
  "float_ge x (Fin y) = (x \<ge> y)"
| "float_ge x PosInf = False"
| "float_ge x NegInf = True"
| "float_ge x NaN = False"

fun xtimes :: "xfloat \<Rightarrow> real \<Rightarrow> xfloat" where
  "xtimes (Fin x) c = Fin (x * c)"
| "xtimes PosInf c = (if c > 0 then PosInf else if c < 0 then NegInf else NaN)"
| "xtimes NegInf c = (if c > 0 then NegInf else if c < 0 then PosInf else NaN)"
| "xtimes NaN c = NaN"

fun xfloor :: "xfloat \<Rightarrow> xfloat" where
  "xfloor (Fin x) = Fin (of_int \<lfloor>x\<rfloor>)"
| "xfloor y = y"

definition xdiv :: "real \<Rightarrow> real \<Rightarrow> xfloat" where
  "xdiv a b =
     (if b \<noteq> 0 then Fin (a / b)
      else if a > 0 then PosInf else if a < 0 then NegInf else NaN)"

text \<open>
  A Go \<^verbatim>\<open>int\<close> is taken as 64 bits wide: a 64-bit word read as signed (\<open>sint\<close>, \<open><s\<close>). The conversion \<^verbatim>\<open>int(f)\<close> truncates towards
  zero; for a float outside the range of \<^verbatim>\<open>int\<close> (and for \<^verbatim>\<open>\<plusminus>Inf\<close>, \<^verbatim>\<open>NaN\<close>) Go
  leaves the result to the implementation: it is the parameter \<open>impl\<close>.
\<close>

definition truncToZero :: "real \<Rightarrow> int" where
  "truncToZero x = (if x \<ge> 0 then \<lfloor>x\<rfloor> else \<lceil>x\<rceil>)"

fun toInt :: "(xfloat \<Rightarrow> 64 word) \<Rightarrow> xfloat \<Rightarrow> 64 word" where
  "toInt impl (Fin x) =
     (if - (2 ^ 63) \<le> truncToZero x \<and> truncToZero x < 2 ^ 63
      then word_of_int (truncToZero x) else impl (Fin x))"
| "toInt impl y = impl y"

text \<open>On amd64 every such conversion gives the smallest \<^verbatim>\<open>int64\<close>.\<close>

definition implAmd64 :: "xfloat \<Rightarrow> 64 word" where
  "implAmd64 x = word_of_int (- (2 ^ 63))"

definition float64 :: "64 word \<Rightarrow> real" where
  "float64 n = real_of_int (sint n)"

datatype ScalingDecision = ScaleDown | Maintain | ScaleUp | ShedLoad | EmergencyStop

record AutoScalerMetrics =
  R :: real
  CurrentN :: "64 word"
  Alpha_m :: real
  Beta_m :: real
  Lambda_m :: real
  TargetR_m :: real

text \<open>
  The recommendation without its \<^verbatim>\<open>Reason\<close> text. \<^verbatim>\<open>CostSavings\<close> divides by the
  converted \<^verbatim>\<open>CurrentN\<close>, which may be zero.
\<close>

record ScalingRecommendation =
  Decision :: ScalingDecision
  TargetN :: "64 word"
  PeakN :: xfloat
  InRetrograde :: bool
  CostSavings :: xfloat
  RiskLevel :: string

text \<open>
  The peak capacity as the first lines of \<^verbatim>\<open>ShouldScale\<close> compute it. In \<open>ShouldScale\<close>
  the last case of the \<^verbatim>\<open>switch\<close>, \<^verbatim>\<open>m.R < 1.5\<close>, is the final \<open>else\<close>: for a real
  \<open>R\<close> it is what the four cases before it leave.
\<close>

definition peakN :: "AutoScalerMetrics \<Rightarrow> xfloat" where
  "peakN m = (if Beta_m m > 0 then go_sqrt ((1 - Alpha_m m) / Beta_m m) else PosInf)"

definition ShouldScale :: "(xfloat \<Rightarrow> 64 word) \<Rightarrow> AutoScalerMetrics \<Rightarrow> ScalingRecommendation" where
  "ShouldScale impl m =
     (let inRetrograde = float_ge (float64 (CurrentN m)) (peakN m);
          targetR = (if TargetR_m m = 0 then 2.0 else TargetR_m m);
          rec = (\<lambda>d t c risk.
                   \<lparr>Decision = d, TargetN = t, PeakN = peakN m, InRetrograde = inRetrograde,
                    CostSavings = c, RiskLevel = risk\<rparr>)
      in if R m \<ge> 4.0 then rec EmergencyStop (CurrentN m) (Fin 0) ''CRITICAL''
         else if R m \<ge> 3.0 then
           (if inRetrograde
            then rec ShedLoad (toInt impl (xfloor (xtimes (peakN m) 0.8))) (Fin 0) ''HIGH''
            else rec ShedLoad (CurrentN m) (Fin 0) ''HIGH'')
         else if R m \<ge> 2.5 \<and> R m < 3.0 then
           (if inRetrograde
            then rec ShedLoad (CurrentN m) (Fin 0) ''MEDIUM''
            else
              let scaleFactor = R m / targetR;
                  targetN = toInt impl (Fin (of_int \<lceil>float64 (CurrentN m) * scaleFactor\<rceil>));
                  maxSafeN = toInt impl (xfloor (xtimes (peakN m) 0.8));
                  targetN' = (if maxSafeN <s targetN then maxSafeN else targetN)
              in rec ScaleUp targetN' (Fin 0) ''MEDIUM'')
         else if R m \<ge> 1.5 \<and> R m < 2.5 then rec Maintain (CurrentN m) (Fin 0) ''LOW''
         else
           let scaleFactor = R m / targetR;
               targetN = toInt impl (Fin (of_int \<lfloor>float64 (CurrentN m) * scaleFactor\<rfloor>));
               targetN' = (if targetN <s 1 then 1 else targetN);
               nodeReduction = CurrentN m - targetN'
           in rec ScaleDown targetN'
                (xtimes (xdiv (float64 nodeReduction) (float64 (CurrentN m))) 100) ''LOW'')"

definition CalculatePeakCapacity :: "real \<Rightarrow> real \<Rightarrow> xfloat" where
  "CalculatePeakCapacity alpha beta =
     (if beta \<le> 0 then PosInf
      else if alpha \<ge> 1 then Fin 0
      else go_sqrt ((1 - alpha) / beta))"

definition IsRetrograde :: "64 word \<Rightarrow> real \<Rightarrow> real \<Rightarrow> bool" where
  "IsRetrograde currentN alpha beta =
     (let peak = CalculatePeakCapacity alpha beta
      in if peak = PosInf then False else float_ge (float64 currentN) peak)"

definition metricsS5 :: AutoScalerMetrics where
  "metricsS5 = \<lparr>R = 3.2, CurrentN = 50, Alpha_m = 0.3, Beta_m = 0.05, Lambda_m = 0, TargetR_m = 0\<rparr>"

definition metricsDeadlock :: AutoScalerMetrics where
  "metricsDeadlock = metricsS5\<lparr>Alpha_m := 1.5\<rparr>"

section \<open>float64 arithmetic, for the USL fitter\<close>

text \<open>
  What the fitter returns depends on the rounding of its intermediate results, so its
  arithmetic is modelled as IEEE 754 binary64 with rounding to nearest, ties to even: every
  operation is the exact result, rounded. A finite value is the real number it stands for;
  \<open>Num 0\<close> is \<^verbatim>\<open>+0\<close>, \<open>NegZero\<close> is \<^verbatim>\<open>-0\<close>. No two operations are fused, as on amd64.
\<close>

datatype f64 = Num real | NegZero | PInf | NInf | QNaN

text \<open>The number of binary digits of a positive integer.\<close>

function bitLength :: "int \<Rightarrow> int" where
  "bitLength n = (if n \<le> 0 then 0 else 1 + bitLength (n div 2))"
  by pat_completeness auto
termination
  by (relation "measure nat") auto

declare bitLength.simps [simp del]

text \<open>For \<open>x > 0\<close>, the exponent \<open>e\<close> with \<open>2^e \<le> x < 2^(e+1)\<close>.\<close>

definition ilog2 :: "real \<Rightarrow> int" where
  "ilog2 x =
     (if 1 \<le> x then bitLength \<lfloor>x\<rfloor> - 1
      else - bitLength (\<lceil>1 / x\<rceil> - 1))"

definition pow2 :: "int \<Rightarrow> real" where
  "pow2 k = (if 0 \<le> k then 2 ^ nat k else 1 / 2 ^ nat (- k))"

definition roundEven :: "real \<Rightarrow> int" where
  "roundEven x =
     (let f = \<lfloor>x\<rfloor>; d = x - of_int f
      in if d < 1 / 2 then f
         else if d > 1 / 2 then f + 1
         else if even f then f else f + 1)"

text \<open>
  The nearest number with a 53-bit significand and an exponent of at least -1022 (below
  that the spacing stays that of the subnormal numbers); the exponent is not bounded above
  here.
\<close>

definition round64 :: "real \<Rightarrow> real" where
  "round64 x =
     (if x = 0 then 0
      else let e = max (ilog2 \<bar>x\<bar>) (- 1022); q = pow2 (e - 52)
           in of_int (roundEven (x / q)) * q)"

definition signedInf :: "bool \<Rightarrow> f64" where
  "signedInf neg = (if neg then NInf else PInf)"

definition signedZero :: "bool \<Rightarrow> f64" where
  "signedZero neg = (if neg then NegZero else Num 0)"

text \<open>
  The float64 for an exact result \<open>x\<close>: rounded, infinite beyond the largest finite number,
  and a zero of sign \<open>neg\<close> where the rounded result is zero.
\<close>

definition pack :: "bool \<Rightarrow> real \<Rightarrow> f64" where
  "pack neg x =
     (let r = round64 x
      in if r = 0 then signedZero neg
         else if 1024 \<le> ilog2 \<bar>r\<bar> then signedInf (r < 0)
         else Num r)"



fun val :: "f64 \<Rightarrow> real" where
  "val (Num x) = x"
| "val y = 0"

fun isNeg :: "f64 \<Rightarrow> bool" where
  "isNeg (Num x) = (x < 0)"
| "isNeg NegZero = True"
| "isNeg NInf = True"
| "isNeg y = False"

fun isZero :: "f64 \<Rightarrow> bool" where
  "isZero (Num x) = (x = 0)"
| "isZero NegZero = True"
| "isZero y = False"

fun isInf :: "f64 \<Rightarrow> bool" where
  "isInf PInf = True"
| "isInf NInf = True"
| "isInf y = False"

fun fneg :: "f64 \<Rightarrow> f64" where
  "fneg (Num x) = (if x = 0 then NegZero else Num (- x))"
| "fneg NegZero = Num 0"
| "fneg PInf = NInf"
| "fneg NInf = PInf"
| "fneg QNaN = QNaN"


definition fadd :: "f64 \<Rightarrow> f64 \<Rightarrow> f64" where
  "fadd a b =
     (if a = QNaN \<or> b = QNaN then QNaN
      else if isInf a \<and> isInf b then (if a = b then a else QNaN)
      else if isInf a then a
      else if isInf b then b
      else let s = val a + val b
           in if s = 0 then signedZero (isNeg a \<and> isNeg b) else pack (s < 0) s)"

definition fsub :: "f64 \<Rightarrow> f64 \<Rightarrow> f64" where
  "fsub a b = fadd a (fneg b)"

definition fmul :: "f64 \<Rightarrow> f64 \<Rightarrow> f64" where
  "fmul a b =
     (let neg = (isNeg a \<noteq> isNeg b)
      in if a = QNaN \<or> b = QNaN then QNaN
         else if (isInf a \<and> isZero b) \<or> (isZero a \<and> isInf b) then QNaN
         else if isInf a \<or> isInf b then signedInf neg
         else pack neg (val a * val b))"

definition fdiv :: "f64 \<Rightarrow> f64 \<Rightarrow> f64" where
  "fdiv a b =
     (let neg = (isNeg a \<noteq> isNeg b)
      in if a = QNaN \<or> b = QNaN then QNaN
         else if (isInf a \<and> isInf b) \<or> (isZero a \<and> isZero b) then QNaN
         else if isInf a then signedInf neg
         else if isInf b then signedZero neg
         else if isZero b then signedInf neg
         else pack neg (val a / val b))"



section \<open>The USL fitter (first part of src/unnamed/part_002)\<close>


record 'v USLCoefficients =
  Lambda :: 'v
  Alpha :: 'v
  Beta :: 'v
  RSquared :: 'v


text \<open>The accumulators of the first loop and one turn of it.\<close>

record Sums =
  sumY :: f64
  sumX1 :: f64
  sumX2 :: f64
  sumX1X1 :: f64
  sumX2X2 :: f64
  sumX1X2 :: f64
  sumYX1 :: f64
  sumYX2 :: f64
  sumOne :: f64




text \<open>Cramer's rule on the 3x3 normal equations.\<close>

definition det :: "Sums \<Rightarrow> f64" where
  "det s =
     fadd (fsub (fmul (sumOne s) (fsub (fmul (sumX1X1 s) (sumX2X2 s)) (fmul (sumX1X2 s) (sumX1X2 s))))
                (fmul (sumX1 s) (fsub (fmul (sumX1 s) (sumX2X2 s)) (fmul (sumX1X2 s) (sumX2 s)))))
          (fmul (sumX2 s) (fsub (fmul (sumX1 s) (sumX1X2 s)) (fmul (sumX1X1 s) (sumX2 s))))"


definition det1 :: "Sums \<Rightarrow> f64" where
  "det1 s =
     fadd (fsub (fmul (sumOne s) (fsub (fmul (sumYX1 s) (sumX2X2 s)) (fmul (sumX1X2 s) (sumYX2 s))))
                (fmul (sumY s) (fsub (fmul (sumX1 s) (sumX2X2 s)) (fmul (sumX1X2 s) (sumX2 s)))))
          (fmul (sumX2 s) (fsub (fmul (sumX1 s) (sumYX2 s)) (fmul (sumYX1 s) (sumX2 s))))"



definition b1 :: "Sums \<Rightarrow> f64" where
  "b1 s = fdiv (det1 s) (det s)"

















text \<open>The exact formula of the model, and the queries on coefficients read as reals.\<close>

definition uslModel :: "real \<Rightarrow> real \<Rightarrow> real \<Rightarrow> real \<Rightarrow> real" where
  "uslModel n lambda alpha beta = (lambda * n) / (1 + alpha * (n - 1) + beta * n * (n - 1))"

definition PredictThroughput :: "real USLCoefficients \<Rightarrow> int \<Rightarrow> real" where
  "PredictThroughput c n = uslModel (real_of_int n) (Lambda c) (Alpha c) (Beta c)"

definition Efficiency :: "real USLCoefficients \<Rightarrow> int \<Rightarrow> real" where
  "Efficiency c n =
     (let predicted = PredictThroughput c n;
          ideal = Lambda c * real_of_int n
      in if ideal = 0 then 0 else predicted / ideal)"






definition coeffsPeak15 :: "real USLCoefficients" where
  "coeffsPeak15 = \<lparr>Lambda = 1, Alpha = 0, Beta = 1 / 15, RSquared = 1\<rparr>"

definition coeffsNegAlpha :: "real USLCoefficients" where
  "coeffsNegAlpha = \<lparr>Lambda = 1, Alpha = - 10, Beta = 1 / 10, RSquared = 1\<rparr>"

section \<open>The tail-divergence tracker (second part of src/unnamed/part_002)\<close>

text \<open>
  A latency is a \<^verbatim>\<open>time.Duration\<close>, an integer of nanoseconds. The mutex is left out:
  the calls are taken one after the other. The run-time panics of Go (an index or a slice
  bound out of range, a negative length given to \<^verbatim>\<open>make\<close>, a remainder by zero) are
  results of their own. The counter of recorded samples is an unbounded integer.
\<close>

datatype panic = IndexOutOfRange | SliceBoundsOutOfRange | MakeSliceLenOutOfRange | DivideByZero

record TailDivergenceTracker =
  samples :: "int list"
  maxSamples :: int
  writeIndex :: int
  sampleCount :: int
  cachedP50 :: int
  cachedP99 :: int
  cachedP999 :: int
  cacheValid :: bool

definition NewTailDivergenceTracker :: "int \<Rightarrow> TailDivergenceTracker" where
  "NewTailDivergenceTracker maxSamples0 =
     (let maxSamples1 = (if maxSamples0 \<le> 0 then 1000 else maxSamples0)
      in \<lparr>samples = replicate (nat maxSamples1) 0,
          maxSamples = maxSamples1,
          writeIndex = 0,
          sampleCount = 0,
          cachedP50 = 0, cachedP99 = 0, cachedP999 = 0,
          cacheValid = False\<rparr>)"

text \<open>Go's \<^verbatim>\<open>%\<close>: the remainder of the division that truncates towards zero.\<close>

definition go_rem :: "int \<Rightarrow> int \<Rightarrow> int" where
  "go_rem a b = sgn a * (\<bar>a\<bar> mod \<bar>b\<bar>)"

definition Record :: "TailDivergenceTracker \<Rightarrow> int \<Rightarrow> panic + TailDivergenceTracker" where
  "Record t latency =
     (if writeIndex t < 0 \<or> writeIndex t \<ge> int (length (samples t)) then Inl IndexOutOfRange
      else if maxSamples t = 0 then Inl DivideByZero
      else Inr (t\<lparr>samples := (samples t)[nat (writeIndex t) := latency],
                  writeIndex := go_rem (writeIndex t + 1) (maxSamples t),
                  sampleCount := sampleCount t + 1,
                  cacheValid := False\<rparr>))"

fun RecordAll :: "TailDivergenceTracker \<Rightarrow> int list \<Rightarrow> panic + TailDivergenceTracker" where
  "RecordAll t [] = Inr t"
| "RecordAll t (x # xs) = (case Record t x of Inl e \<Rightarrow> Inl e | Inr t' \<Rightarrow> RecordAll t' xs)"

definition effectiveSampleCount :: "TailDivergenceTracker \<Rightarrow> int" where
  "effectiveSampleCount t =
     (if sampleCount t < maxSamples t then sampleCount t else maxSamples t)"

definition percentile :: "TailDivergenceTracker \<Rightarrow> real \<Rightarrow> panic + int" where
  "percentile t p =
     (let effectiveSamples = effectiveSampleCount t
      in if effectiveSamples = 0 then Inr 0
         else if effectiveSamples < 0 then Inl MakeSliceLenOutOfRange
         else if effectiveSamples > int (length (samples t)) then Inl SliceBoundsOutOfRange
         else
           let sorted = sort (take (nat effectiveSamples) (samples t));
               index0 = truncToZero (real_of_int (effectiveSamples - 1) * p);
               index1 = (if index0 < 0 then 0 else index0);
               index = (if index1 \<ge> effectiveSamples then effectiveSamples - 1 else index1)
           in Inr (sorted ! nat index))"

definition P50 :: "TailDivergenceTracker \<Rightarrow> panic + int" where
  "P50 t = percentile t 0.50"

definition P99 :: "TailDivergenceTracker \<Rightarrow> panic + int" where
  "P99 t = percentile t 0.99"

definition TailDivergenceRatio :: "TailDivergenceTracker \<Rightarrow> panic + real" where
  "TailDivergenceRatio t =
     (case P50 t of
        Inl e \<Rightarrow> Inl e
      | Inr p50 \<Rightarrow>
          (case P99 t of
             Inl e \<Rightarrow> Inl e
           | Inr p99 \<Rightarrow>
               if p50 = 0 then Inr 1.0 else Inr (real_of_int p99 / real_of_int p50)))"

text \<open>
  What the constructor establishes and \<open>Record\<close> keeps, for latencies that are not
  negative.
\<close>

definition trackerInv :: "TailDivergenceTracker \<Rightarrow> bool" where
  "trackerInv t \<longleftrightarrow>
     0 < maxSamples t \<and> int (length (samples t)) = maxSamples t \<and>
     0 \<le> writeIndex t \<and> writeIndex t < maxSamples t \<and> 0 \<le> sampleCount t \<and>
     (\<forall>x \<in> set (samples t). 0 \<le> x)"

definition latenciesSkewed :: "int list" where
  "latenciesSkewed = [5, 10, 10000, 7]"

section \<open>Theorems\<close>

subsection \<open>The r model\<close>

lemma max_int_pos: "0 < real_of_int (max_int a 1)"
  by (simp add: max_int_def)

lemma CriticalityScalingRatio_pos: "0 < CriticalityScalingRatio"
  by (simp add: CriticalityScalingRatio_def FeigenbaumDelta_def)

text \<open>
  C8. \<open>CalculateSystemDNA\<close> is non-decreasing in each of \<open>MutableSharedState\<close>,
  \<open>UnsupervisedProcesses\<close> and \<open>ScalingRatio\<close>, the other fields held fixed: raising one
  of the three fields of a metrics record from \<open>x\<close> to \<open>y \<ge> x\<close> never lowers r.
\<close>

theorem CalculateSystemDNA_monotone:
  "(x \<le> y \<longrightarrow>
      CalculateSystemDNA (metrics\<lparr>MutableSharedState := x\<rparr>)
      \<le> CalculateSystemDNA (metrics\<lparr>MutableSharedState := y\<rparr>)) \<and>
   (x \<le> y \<longrightarrow>
      CalculateSystemDNA (metrics\<lparr>UnsupervisedProcesses := x\<rparr>)
      \<le> CalculateSystemDNA (metrics\<lparr>UnsupervisedProcesses := y\<rparr>)) \<and>
   (s \<le> s' \<longrightarrow>
      CalculateSystemDNA (metrics\<lparr>ScalingRatio := s\<rparr>)
      \<le> CalculateSystemDNA (metrics\<lparr>ScalingRatio := s'\<rparr>))"
proof (intro conjI impI)
  assume le: "x \<le> y"
  have d: "0 < real_of_int (max_int (ImmutableOpsVerified metrics) 1)"
    by (rule max_int_pos)
  from le d show "CalculateSystemDNA (metrics\<lparr>MutableSharedState := x\<rparr>)
      \<le> CalculateSystemDNA (metrics\<lparr>MutableSharedState := y\<rparr>)"
    by (simp add: CalculateSystemDNA_def isolationPenalty_def supervisionPenalty_def
        scalingPenalty_def divide_right_mono)
next
  assume le: "x \<le> y"
  have d: "0 < real_of_int (max_int (SupervisedProcesses metrics) 1)"
    by (rule max_int_pos)
  from le d show "CalculateSystemDNA (metrics\<lparr>UnsupervisedProcesses := x\<rparr>)
      \<le> CalculateSystemDNA (metrics\<lparr>UnsupervisedProcesses := y\<rparr>)"
    by (simp add: CalculateSystemDNA_def isolationPenalty_def supervisionPenalty_def
        scalingPenalty_def divide_right_mono)
next
  assume le: "s \<le> s'"
  with CriticalityScalingRatio_pos
  show "CalculateSystemDNA (metrics\<lparr>ScalingRatio := s\<rparr>)
      \<le> CalculateSystemDNA (metrics\<lparr>ScalingRatio := s'\<rparr>)"
    by (simp add: CalculateSystemDNA_def isolationPenalty_def supervisionPenalty_def
        scalingPenalty_def divide_right_mono)
qed


theorem CalculateSystemDNA_monotone_witness:
  "(1::int) \<le> 2 \<and> (0.1::real) \<le> 0.2 \<and>
   CalculateSystemDNA (metrics0\<lparr>MutableSharedState := 1\<rparr>)
     \<le> CalculateSystemDNA (metrics0\<lparr>MutableSharedState := 2\<rparr>) \<and>
   CalculateSystemDNA (metrics0\<lparr>UnsupervisedProcesses := 1\<rparr>)
     \<le> CalculateSystemDNA (metrics0\<lparr>UnsupervisedProcesses := 2\<rparr>) \<and>
   CalculateSystemDNA (metrics0\<lparr>ScalingRatio := 0.1\<rparr>)
     \<le> CalculateSystemDNA (metrics0\<lparr>ScalingRatio := 0.2\<rparr>)"
  using CalculateSystemDNA_monotone [of 1 2 metrics0 "0.1" "0.2"] by simp

subsection \<open>The recovery pulse\<close>

lemma recoveryPulse_bounds:
  assumes r: "3 \<le> CurrentR rd" and m: "0 \<le> MutableSharedState metrics"
  shows "0 \<le> recoveryPulse rd metrics"
    and "recoveryPulse rd metrics \<le> CriticalityScalingRatio"
    and "recoveryPulse rd metrics \<le> (CurrentR rd - 3) / 2"
proof -
  define iso where "iso = real_of_int (MutableSharedState metrics) /
                           real_of_int (max_int (ImmutableOpsVerified metrics) 1)"
  define f where "f = 1 / (1 + iso)"
  define d where "d = CurrentR rd - 3"
  have iso: "0 \<le> iso" unfolding iso_def using m max_int_pos[of "ImmutableOpsVerified metrics"]
    by simp
  then have f: "0 < f" "f \<le> 1" by (simp_all add: f_def)
  have d: "0 \<le> d" using r by (simp add: d_def)
  have p: "recoveryPulse rd metrics = min (d * f * 0.5) CriticalityScalingRatio"
    by (simp add: recoveryPulse_def Let_def iso_def f_def d_def StableDNAConstraint_def)
  have df: "0 \<le> d * f" "d * f \<le> d" using d f by (simp_all add: mult_left_le)
  show "0 \<le> recoveryPulse rd metrics" using df CriticalityScalingRatio_pos by (simp add: p)
  show "recoveryPulse rd metrics \<le> CriticalityScalingRatio" by (simp add: p)
  show "recoveryPulse rd metrics \<le> (CurrentR rd - 3) / 2" using df by (simp add: p d_def min_def)
qed

text \<open>
  C7. For every \<open>RDynamics\<close> whose current r is at least 3.0 and metrics whose
  \<open>MutableSharedState\<close> count is not negative, one \<open>ApplyRecovery\<close> pulse lowers r by at most
  \<open>1/\<delta>\<close> (\<open>CriticalityScalingRatio\<close>), never raises it, returns an r of at least 1.0, and
  stores the r it returns.
\<close>

theorem ApplyRecovery_pulse_bound:
  assumes r: "3.0 \<le> CurrentR rd" and m: "0 \<le> MutableSharedState metrics"
  shows "CurrentR rd - fst (ApplyRecovery rd metrics) \<le> CriticalityScalingRatio \<and>
         fst (ApplyRecovery rd metrics) \<le> CurrentR rd \<and>
         1.0 \<le> fst (ApplyRecovery rd metrics) \<and>
         CurrentR (snd (ApplyRecovery rd metrics)) = fst (ApplyRecovery rd metrics)"
proof (cases "InSaturationZone rd")
  case False
  with r CriticalityScalingRatio_pos show ?thesis
    by (simp add: ApplyRecovery_def)
next
  case True
  from r have r3: "3 \<le> CurrentR rd" by simp
  note b = recoveryPulse_bounds[OF r3 m]
  have c: "0.0032 \<le> CriticalityScalingRatio"
    by (simp add: CriticalityScalingRatio_def FeigenbaumDelta_def)
  show ?thesis using True b c r3
    by (auto simp add: ApplyRecovery_def Let_def StableDNAConstraint_def)
qed

theorem ApplyRecovery_pulse_bound_witness:
  "3.0 \<le> CurrentR (NewRDynamics 3.5) \<and> 0 \<le> MutableSharedState metrics0 \<and>
   CurrentR (NewRDynamics 3.5) - fst (ApplyRecovery (NewRDynamics 3.5) metrics0)
     \<le> CriticalityScalingRatio \<and>
   fst (ApplyRecovery (NewRDynamics 3.5) metrics0) \<le> CurrentR (NewRDynamics 3.5) \<and>
   1.0 \<le> fst (ApplyRecovery (NewRDynamics 3.5) metrics0)"
proof -
  have h1: "3.0 \<le> CurrentR (NewRDynamics 3.5)" by (simp add: NewRDynamics_def)
  have h2: "0 \<le> MutableSharedState metrics0" by (simp add: metrics0_def)
  from ApplyRecovery_pulse_bound [OF h1 h2] h1 h2 show ?thesis by simp
qed

text \<open>
  The saturation flag of an \<open>RDynamics\<close> is set by its constructor and by every pulse
  from the current r, so the two agree on every tracker built through the interface.
\<close>

lemma NewRDynamics_flagConsistent: "flagConsistent (NewRDynamics initialR)"
  by (simp add: NewRDynamics_def flagConsistent_def StableDNAConstraint_def)

lemma ApplyRecovery_flagConsistent:
  "flagConsistent rd \<Longrightarrow> flagConsistent (snd (ApplyRecovery rd metrics))"
  by (simp add: ApplyRecovery_def flagConsistent_def StableDNAConstraint_def Let_def)

subsection \<open>The governor\<close>

lemma runtimeZone_not_block: "Type (fst (runtimeZone g metrics now r)) \<noteq> ActionBlockDeploy"
  by (simp add: runtimeZone_def saturationBranch_def Let_def)

lemma FeigenbaumDelta_pos: "0 < FeigenbaumDelta"
  by (simp add: FeigenbaumDelta_def)

lemma Check_blocked:
  assumes "deployBlockedBy metrics"
  shows "CheckStructuralIntegrity g metrics now =
         (\<lparr>Type = ActionBlockDeploy, Metrics = metrics, Timestamp = now\<rparr>,
          (recordR g (CalculateSystemDNA metrics) now)
            \<lparr>deployBlocked := deployBlocked g + 1\<rparr>)"
  using assms
  by (auto simp add: deployBlockedBy_def CheckStructuralIntegrity_def Let_def recordR_def)

lemma Check_not_blocked:
  assumes nb: "\<not> deployBlockedBy metrics"
  shows "CheckStructuralIntegrity g metrics now =
         runtimeZone (recordR g (CalculateSystemDNA metrics) now) metrics now
           (CalculateSystemDNA metrics)"
proof (cases "DeltaCriticalCore metrics > 0 \<or> DeltaComplexity metrics > 0")
  case False
  then show ?thesis by (simp add: CheckStructuralIntegrity_def Let_def)
next
  case gate: True
  from nb have debt: "\<not> (DeltaCriticalCore metrics = 0 \<and> DeltaComplexity metrics > 0)"
    by (simp add: deployBlockedBy_def)
  have ratio: "\<not> DeltaComplexity metrics / DeltaCriticalCore metrics > FeigenbaumDelta"
  proof (cases "DeltaCriticalCore metrics > 0")
    case True
    with nb show ?thesis by (simp add: deployBlockedBy_def)
  next
    case False
    with gate debt have "DeltaComplexity metrics > 0" "DeltaCriticalCore metrics < 0" by auto
    then have "DeltaComplexity metrics / DeltaCriticalCore metrics < 0"
      by (simp add: divide_pos_neg)
    with FeigenbaumDelta_pos show ?thesis by linarith
  qed
  from gate debt ratio show ?thesis
    by (auto simp add: CheckStructuralIntegrity_def Let_def)
qed

text \<open>
  C2. The deployment gate: metrics with \<open>DeltaCriticalCore = 0\<close> and \<open>DeltaComplexity > 0\<close>
  are answered with \<open>BlockDeploy\<close>; so are metrics with \<open>DeltaCriticalCore > 0\<close> and
  \<open>DeltaComplexity / DeltaCriticalCore > \<delta>\<close>; metrics that satisfy neither condition are
  never answered with \<open>BlockDeploy\<close>: their evaluation is the runtime zone selection.
\<close>

theorem deploy_gate_iff:
  "(DeltaCriticalCore metrics = 0 \<and> DeltaComplexity metrics > 0 \<longrightarrow>
      Type (fst (CheckStructuralIntegrity g metrics now)) = ActionBlockDeploy) \<and>
   (DeltaCriticalCore metrics > 0 \<and>
    DeltaComplexity metrics / DeltaCriticalCore metrics > FeigenbaumDelta \<longrightarrow>
      Type (fst (CheckStructuralIntegrity g metrics now)) = ActionBlockDeploy) \<and>
   (\<not> (DeltaCriticalCore metrics = 0 \<and> DeltaComplexity metrics > 0) \<and>
    \<not> (DeltaCriticalCore metrics > 0 \<and>
       DeltaComplexity metrics / DeltaCriticalCore metrics > FeigenbaumDelta) \<longrightarrow>
      Type (fst (CheckStructuralIntegrity g metrics now)) \<noteq> ActionBlockDeploy \<and>
      CheckStructuralIntegrity g metrics now =
        runtimeZone (recordR g (CalculateSystemDNA metrics) now) metrics now
          (CalculateSystemDNA metrics))"
proof (cases "deployBlockedBy metrics")
  case True
  from Check_blocked[OF True] have "Type (fst (CheckStructuralIntegrity g metrics now)) = ActionBlockDeploy"
    by simp
  with True show ?thesis by (simp add: deployBlockedBy_def)
next
  case False
  note eq = Check_not_blocked[OF False]
  have "Type (fst (CheckStructuralIntegrity g metrics now)) \<noteq> ActionBlockDeploy"
    by (simp only: eq runtimeZone_not_block not_False_eq_True)
  with False eq show ?thesis by (simp add: deployBlockedBy_def)
qed

theorem deploy_gate_iff_witness:
  "(DeltaCriticalCore metricsDebt = 0 \<and> DeltaComplexity metricsDebt > 0) \<and>
   Type (fst (CheckStructuralIntegrity (NewGovernor 1.5 0) metricsDebt 1)) = ActionBlockDeploy \<and>
   (DeltaCriticalCore metricsRatio > 0 \<and>
    DeltaComplexity metricsRatio / DeltaCriticalCore metricsRatio > FeigenbaumDelta) \<and>
   Type (fst (CheckStructuralIntegrity (NewGovernor 1.5 0) metricsRatio 1)) = ActionBlockDeploy \<and>
   \<not> (DeltaCriticalCore metrics0 = 0 \<and> DeltaComplexity metrics0 > 0) \<and>
   \<not> (DeltaCriticalCore metrics0 > 0 \<and>
      DeltaComplexity metrics0 / DeltaCriticalCore metrics0 > FeigenbaumDelta) \<and>
   Type (fst (CheckStructuralIntegrity (NewGovernor 1.5 0) metrics0 1)) \<noteq> ActionBlockDeploy"
proof -
  have h1: "DeltaCriticalCore metricsDebt = 0 \<and> DeltaComplexity metricsDebt > 0"
    by (simp add: metricsDebt_def)
  have h2: "DeltaCriticalCore metricsRatio > 0 \<and>
    DeltaComplexity metricsRatio / DeltaCriticalCore metricsRatio > FeigenbaumDelta"
    by (simp add: metricsRatio_def FeigenbaumDelta_def)
  have h3: "\<not> (DeltaCriticalCore metrics0 = 0 \<and> DeltaComplexity metrics0 > 0) \<and>
   \<not> (DeltaCriticalCore metrics0 > 0 \<and>
      DeltaComplexity metrics0 / DeltaCriticalCore metrics0 > FeigenbaumDelta)"
    by (simp add: metrics0_def)
  from h1 h2 h3
    deploy_gate_iff [of metricsDebt "NewGovernor 1.5 0" 1]
    deploy_gate_iff [of metricsRatio "NewGovernor 1.5 0" 1]
    deploy_gate_iff [of metrics0 "NewGovernor 1.5 0" 1]
  show ?thesis by blast
qed

lemma recordR_fields [simp]:
  "inThrottleMode (recordR g r now) = inThrottleMode g"
  "throttleEnteredAt (recordR g r now) = throttleEnteredAt g"
  "throttleMinDuration (recordR g r now) = throttleMinDuration g"
  "throttleExitThreshold (recordR g r now) = throttleExitThreshold g"
  "saturationThreshold (recordR g r now) = saturationThreshold g"
  "dangerThreshold (recordR g r now) = dangerThreshold g"
  "warningThreshold (recordR g r now) = warningThreshold g"
  "throttleEvents (recordR g r now) = throttleEvents g"
  "standardThresholds (recordR g r now) = standardThresholds g"
  "CurrentR (rdynamics (recordR g r now)) = r"
  "InSaturationZone (rdynamics (recordR g r now)) = (r \<ge> saturationThreshold g)"
  by (simp_all add: recordR_def standardThresholds_def)

lemma NewGovernor_inv:
  "standardThresholds (NewGovernor initialR now) \<and> flagConsistent (rdynamics (NewGovernor initialR now))
   \<and> \<not> inThrottleMode (NewGovernor initialR now)"
  by (simp add: NewGovernor_def standardThresholds_def flagConsistent_def)

lemma runtimeZone_inv:
  assumes "standardThresholds g"
  shows "standardThresholds (snd (runtimeZone g metrics now r)) \<and>
         rdynamics (snd (runtimeZone g metrics now r)) = rdynamics g"
  using assms
  by (simp add: runtimeZone_def saturationBranch_def Let_def standardThresholds_def)

lemma Check_inv:
  assumes "standardThresholds g"
  shows "standardThresholds (snd (CheckStructuralIntegrity g metrics now)) \<and>
         flagConsistent (rdynamics (snd (CheckStructuralIntegrity g metrics now)))"
proof (cases "deployBlockedBy metrics")
  case True
  show ?thesis using assms
    by (simp add: Check_blocked[OF True] standardThresholds_def flagConsistent_def recordR_def)
next
  case False
  have s: "standardThresholds (recordR g (CalculateSystemDNA metrics) now)" using assms by simp
  from runtimeZone_inv[OF s] assms show ?thesis
    by (simp add: Check_not_blocked[OF False] flagConsistent_def standardThresholds_def)
qed

text \<open>
  How throttle mode is entered: an evaluation outside throttle mode that the deployment
  gate does not block and whose r is at least 3.0 returns \<open>Throttle\<close> and records the
  time of the evaluation as the entry time.
\<close>

lemma throttle_entered:
  assumes th: "standardThresholds g" and out: "\<not> inThrottleMode g"
    and hot: "3.0 \<le> CalculateSystemDNA metrics" and nb: "\<not> deployBlockedBy metrics"
  shows "Type (fst (CheckStructuralIntegrity g metrics now)) = ActionThrottle \<and>
         inThrottleMode (snd (CheckStructuralIntegrity g metrics now)) \<and>
         throttleEnteredAt (snd (CheckStructuralIntegrity g metrics now)) = now"
proof -
  from th have st: "saturationThreshold g = 3.0" by (simp add: standardThresholds_def)
  show ?thesis using out hot st
    by (simp add: Check_not_blocked[OF nb] runtimeZone_def saturationBranch_def Let_def)
qed

text \<open>
  C1, as amended. Once a governor with the constructor's thresholds is in throttle mode,
  every evaluation less than 60 seconds after the entry that the deployment gate does not
  block returns \<open>Throttle\<close>, whatever r the metrics give, also an r below 2.0; an
  evaluation that the gate blocks returns \<open>BlockDeploy\<close>. In both cases the governor stays
  in throttle mode with the same entry time and the same thresholds.
\<close>

theorem throttle_hysteresis:
  assumes th: "standardThresholds g" and inT: "inThrottleMode g"
    and win: "Sub now (throttleEnteredAt g) < 60 * Second"
  shows "Type (fst (CheckStructuralIntegrity g metrics now)) =
           (if deployBlockedBy metrics then ActionBlockDeploy else ActionThrottle) \<and>
         inThrottleMode (snd (CheckStructuralIntegrity g metrics now)) \<and>
         throttleEnteredAt (snd (CheckStructuralIntegrity g metrics now)) = throttleEnteredAt g \<and>
         standardThresholds (snd (CheckStructuralIntegrity g metrics now))"
proof (cases "deployBlockedBy metrics")
  case True
  show ?thesis using th inT
    by (simp add: Check_blocked[OF True] True standardThresholds_def recordR_def)
next
  case False
  from th have md: "throttleMinDuration g = 60 * Second" by (simp add: standardThresholds_def)
  show ?thesis using th inT win md
    by (simp add: Check_not_blocked[OF False] False runtimeZone_def saturationBranch_def Let_def)
qed

lemma throttledGovernor_facts:
  "standardThresholds throttledGovernor" "inThrottleMode throttledGovernor"
  "throttleEnteredAt throttledGovernor = 0"
  by (simp_all add: throttledGovernor_def CheckStructuralIntegrity_def Let_def runtimeZone_def
      saturationBranch_def recordR_def NewGovernor_def metricsHot_def metrics0_def
      CalculateSystemDNA_def isolationPenalty_def supervisionPenalty_def scalingPenalty_def
      max_int_def standardThresholds_def)

lemma DNA_values:
  "CalculateSystemDNA metricsHot = 3.2" "CalculateSystemDNA metricsCool = 1"
  "CalculateSystemDNA metricsDebt = 3.2"
  by (simp_all add: metricsHot_def metricsCool_def metricsDebt_def metrics0_def
      CalculateSystemDNA_def isolationPenalty_def supervisionPenalty_def scalingPenalty_def
      max_int_def)

lemma Sub_small: "Sub (30 * Second) 0 = 30 * Second"
  by (simp add: Sub_def Second_def maxDuration_def minDuration_def)

theorem throttle_hysteresis_witness:
  "standardThresholds throttledGovernor \<and> inThrottleMode throttledGovernor \<and>
   Sub (30 * Second) (throttleEnteredAt throttledGovernor) < 60 * Second \<and>
   Type (fst (CheckStructuralIntegrity throttledGovernor metricsCool (30 * Second))) = ActionThrottle \<and>
   inThrottleMode (snd (CheckStructuralIntegrity throttledGovernor metricsCool (30 * Second)))"
proof -
  have w: "Sub (30 * Second) (throttleEnteredAt throttledGovernor) < 60 * Second"
    by (simp add: throttledGovernor_facts Sub_small) (simp add: Second_def)
  have nb: "\<not> deployBlockedBy metricsCool"
    by (simp add: deployBlockedBy_def metricsCool_def metrics0_def)
  from throttle_hysteresis [OF throttledGovernor_facts(1) throttledGovernor_facts(2) w, of metricsCool]
    nb w throttledGovernor_facts
  show ?thesis by simp
qed

text \<open>
  C1 as stated fails. In the governor that entered throttle mode at time 0, an evaluation
  30 seconds later with r = 1.0, below the exit threshold 2.0, still returns \<open>Throttle\<close>
  and leaves throttle mode set, where the claim has the mode cleared and the normal zone
  action returned; and an evaluation 30 seconds later with r = 3.2 and a pure-debt
  deployment does not return \<open>Throttle\<close>.
\<close>

theorem throttle_hysteresis_counterexample:
  "inThrottleMode throttledGovernor \<and>
   Sub (30 * Second) (throttleEnteredAt throttledGovernor) < 60 * Second \<and>
   CalculateSystemDNA metricsCool < 2.0 \<and>
   Type (fst (CheckStructuralIntegrity throttledGovernor metricsCool (30 * Second))) = ActionThrottle \<and>
   inThrottleMode (snd (CheckStructuralIntegrity throttledGovernor metricsCool (30 * Second))) \<and>
   \<not> CalculateSystemDNA metricsDebt < 2.0 \<and>
   Type (fst (CheckStructuralIntegrity throttledGovernor metricsDebt (30 * Second))) \<noteq> ActionThrottle"
proof -
  have w: "Sub (30 * Second) (throttleEnteredAt throttledGovernor) < 60 * Second"
    by (simp add: throttledGovernor_facts Sub_small) (simp add: Second_def)
  have nb: "\<not> deployBlockedBy metricsCool"
    by (simp add: deployBlockedBy_def metricsCool_def metrics0_def)
  have b: "deployBlockedBy metricsDebt"
    by (simp add: deployBlockedBy_def metricsDebt_def metricsHot_def metrics0_def)
  have md: "throttleMinDuration throttledGovernor = 60 * Second"
    using throttledGovernor_facts(1) by (simp add: standardThresholds_def)
  have cool: "Type (fst (CheckStructuralIntegrity throttledGovernor metricsCool (30 * Second))) = ActionThrottle \<and>
   inThrottleMode (snd (CheckStructuralIntegrity throttledGovernor metricsCool (30 * Second)))"
    using w md throttledGovernor_facts(2)
    by (simp add: Check_not_blocked[OF nb] runtimeZone_def saturationBranch_def Let_def)
  have debt: "Type (fst (CheckStructuralIntegrity throttledGovernor metricsDebt (30 * Second))) \<noteq> ActionThrottle"
    by (simp add: Check_blocked[OF b])
  show ?thesis using w cool debt throttledGovernor_facts(2) by (simp add: DNA_values)
qed

text \<open>
  The exit of throttle mode itself: where at least 60 seconds have passed and r is below
  2.0, the code clears the mode and then runs the block that enters it, so the evaluation
  returns \<open>Throttle\<close> again with a new entry time.
\<close>

lemma throttle_exit_reenters:
  assumes th: "standardThresholds g" and inT: "inThrottleMode g"
    and late: "Sub now (throttleEnteredAt g) \<ge> 60 * Second"
    and low: "CalculateSystemDNA metrics < 2.0"
    and nb: "\<not> deployBlockedBy metrics"
  shows "Type (fst (CheckStructuralIntegrity g metrics now)) = ActionThrottle \<and>
         inThrottleMode (snd (CheckStructuralIntegrity g metrics now)) \<and>
         throttleEnteredAt (snd (CheckStructuralIntegrity g metrics now)) = now \<and>
         throttleEvents (snd (CheckStructuralIntegrity g metrics now)) = throttleEvents g + 1"
proof -
  from th have md: "throttleMinDuration g = 60 * Second" "throttleExitThreshold g = 2.0"
    by (simp_all add: standardThresholds_def)
  show ?thesis using inT late low md
    by (simp add: Check_not_blocked[OF nb] runtimeZone_def saturationBranch_def Let_def)
qed

subsection \<open>Recovery below saturation\<close>

lemma recoveryLoop_idle: "\<not> InSaturationZone rd \<Longrightarrow> recoveryLoop k metrics rd i = (rd, i)"
  by (cases k) simp_all

text \<open>
  C10. An \<open>RDynamics\<close> whose current r is below 3.0 and which is not in the saturation
  zone: \<open>ApplyRecovery\<close> returns the current r and the tracker unchanged (r, history and
  recovery-event counter as they were), and so does \<open>ApplyRecoveryUntilStable\<close>, with 0
  iterations. A governor with the constructor's thresholds over such a tracker:
  \<open>Governor_ApplyRecovery\<close> returns true and the governor unchanged.
\<close>

theorem recovery_below_saturation_frame:
  "(CurrentR rd < 3.0 \<and> \<not> InSaturationZone rd \<longrightarrow>
      ApplyRecovery rd metrics = (CurrentR rd, rd) \<and>
      ApplyRecoveryUntilStable rd metrics maxIterations = ((CurrentR rd, 0), rd)) \<and>
   (standardThresholds g \<and> CurrentR (rdynamics g) < 3.0 \<and> \<not> InSaturationZone (rdynamics g) \<longrightarrow>
      Governor_ApplyRecovery g metrics = (True, g))"
proof (rule conjI; rule impI)
  assume a: "CurrentR rd < 3.0 \<and> \<not> InSaturationZone rd"
  then show "ApplyRecovery rd metrics = (CurrentR rd, rd) \<and>
      ApplyRecoveryUntilStable rd metrics maxIterations = ((CurrentR rd, 0), rd)"
    by (simp add: ApplyRecovery_def ApplyRecoveryUntilStable_def recoveryLoop_idle)
next
  assume a: "standardThresholds g \<and> CurrentR (rdynamics g) < 3.0 \<and> \<not> InSaturationZone (rdynamics g)"
  then have st: "saturationThreshold g = 3.0" by (simp add: standardThresholds_def)
  from a st show "Governor_ApplyRecovery g metrics = (True, g)"
    by (simp add: Governor_ApplyRecovery_def ApplyRecoveryUntilStable_def recoveryLoop_idle)
qed

theorem recovery_below_saturation_frame_witness:
  "CurrentR (NewRDynamics 2.0) < 3.0 \<and> \<not> InSaturationZone (NewRDynamics 2.0) \<and>
   ApplyRecovery (NewRDynamics 2.0) metricsHot = (2.0, NewRDynamics 2.0) \<and>
   standardThresholds (NewGovernor 2.0 0) \<and> CurrentR (rdynamics (NewGovernor 2.0 0)) < 3.0 \<and>
   \<not> InSaturationZone (rdynamics (NewGovernor 2.0 0)) \<and>
   Governor_ApplyRecovery (NewGovernor 2.0 0) metricsHot = (True, NewGovernor 2.0 0)"
proof -
  have h1: "CurrentR (NewRDynamics 2.0) < 3.0 \<and> \<not> InSaturationZone (NewRDynamics 2.0)"
    by (simp add: NewRDynamics_def StableDNAConstraint_def)
  have h2: "standardThresholds (NewGovernor 2.0 0) \<and> CurrentR (rdynamics (NewGovernor 2.0 0)) < 3.0 \<and>
   \<not> InSaturationZone (rdynamics (NewGovernor 2.0 0))"
    by (simp add: NewGovernor_def standardThresholds_def)
  have c: "CurrentR (NewRDynamics 2.0) = 2.0" by (simp add: NewRDynamics_def)
  from recovery_below_saturation_frame [of "NewRDynamics 2.0" metricsHot 20 "NewGovernor 2.0 0"]
    h1 h2 c
  show ?thesis by simp
qed

text \<open>
  The side condition on the flag holds in every governor: the constructor and every
  evaluation set the flag from the r they store, and a recovery pulse keeps the agreement.
\<close>

lemma Governor_ApplyRecovery_flagConsistent:
  assumes "flagConsistent (rdynamics g)"
  shows "flagConsistent (rdynamics (snd (Governor_ApplyRecovery g metrics)))"
proof -
  have loop: "flagConsistent rd \<Longrightarrow> flagConsistent (fst (recoveryLoop k metrics rd i))"
    for k rd i
  proof (induction k arbitrary: rd i)
    case 0
    then show ?case by simp
  next
    case (Suc k)
    then show ?case by (simp add: ApplyRecovery_flagConsistent)
  qed
  from loop[OF assms, of 20 0] show ?thesis
    by (auto simp add: Governor_ApplyRecovery_def ApplyRecoveryUntilStable_def Let_def
        split: prod.splits)
qed

subsection \<open>The autoscaler policy\<close>

lemma float_ge_Fin: "float_ge x p \<Longrightarrow> p \<noteq> NegInf \<Longrightarrow> \<exists>y. p = Fin y \<and> y \<le> x"
  by (cases p) simp_all

lemma retrograde_iff:
  "float_ge x (peakN m) \<longleftrightarrow>
     Beta_m m > 0 \<and> Alpha_m m \<le> 1 \<and> sqrt ((1 - Alpha_m m) / Beta_m m) \<le> x"
  by (auto simp add: peakN_def go_sqrt_def divide_less_0_iff not_less)

lemma peakN_agrees:
  "Beta_m m \<le> 0 \<or> Alpha_m m \<le> 1 \<Longrightarrow> peakN m = CalculatePeakCapacity (Alpha_m m) (Beta_m m)"
  by (auto simp add: peakN_def CalculatePeakCapacity_def go_sqrt_def)

lemma float64_bounds: "float64 n < 2 ^ 63" "- (2 ^ 63) \<le> float64 n"
proof -
  have "sint n < 2 ^ 63" using sint_lt[of n] by simp
  then show "float64 n < 2 ^ 63" unfolding float64_def
    by (metis of_int_less_iff of_int_numeral of_int_power)
  have "- (2 ^ 63) \<le> sint n" using sint_ge[of n] by simp
  then show "- (2 ^ 63) \<le> float64 n" unfolding float64_def
    by (metis of_int_le_iff of_int_numeral of_int_power of_int_minus)
qed

lemma sint_word_of_int_64:
  assumes "- (2 ^ 63) \<le> k" "k < 2 ^ 63"
  shows "sint (word_of_int k :: 64 word) = k"
  using assms by (simp add: sint_sbintrunc' signed_take_bit_int_eq_self)

lemma truncToZero_of_int: "truncToZero (of_int k) = k"
  by (simp add: truncToZero_def)

lemma toInt_floor_peak:
  assumes p: "0 \<le> p" "p \<le> float64 n"
  shows "sint (toInt impl (xfloor (xtimes (Fin p) 0.8))) = \<lfloor>0.8 * p\<rfloor>"
proof -
  have lo: "0 \<le> \<lfloor>p * 0.8\<rfloor>" using p by simp
  have "p * 0.8 < 2 ^ 63" using p float64_bounds(1)[of n] by linarith
  then have hi: "\<lfloor>p * 0.8\<rfloor> < 2 ^ 63"
    by (simp add: floor_less_iff)
  have "sint (word_of_int \<lfloor>p * 0.8\<rfloor> :: 64 word) = \<lfloor>p * 0.8\<rfloor>"
    using lo hi by (intro sint_word_of_int_64) simp_all
  with lo hi show ?thesis by (simp add: mult.commute truncToZero_of_int)
qed

text \<open>
  The saturation-plus-retrograde row, wherever \<open>ShouldScale\<close> itself counts the input as
  retrograde, that is for \<open>\<beta> > 0\<close>, \<open>\<alpha> \<le> 1\<close> and \<open>CurrentN\<close> at or above
  \<open>sqrt ((1 - \<alpha>)/\<beta>)\<close>: with \<open>3.0 \<le> r < 4.0\<close> the recommendation is \<open>ShedLoad\<close> with risk
  level HIGH and target \<open>\<lfloor>0.8 * N_peak\<rfloor>\<close>, and the peak is what \<open>CalculatePeakCapacity\<close>
  returns. Scenario S5 (\<open>\<alpha> = 0.3\<close>, \<open>\<beta> = 0.05\<close>, \<open>CurrentN = 50\<close>, \<open>r = 3.2\<close>, target 2) is
  an instance.
\<close>

lemma ShouldScale_saturation_retrograde:
  assumes r: "3.0 \<le> R m" "R m < 4.0"
    and retro: "float_ge (float64 (CurrentN m)) (peakN m)"
  shows "Decision (ShouldScale impl m) = ShedLoad \<and>
         RiskLevel (ShouldScale impl m) = ''HIGH'' \<and>
         InRetrograde (ShouldScale impl m) \<and>
         PeakN (ShouldScale impl m) = Fin (sqrt ((1 - Alpha_m m) / Beta_m m)) \<and>
         CalculatePeakCapacity (Alpha_m m) (Beta_m m) = PeakN (ShouldScale impl m) \<and>
         sint (TargetN (ShouldScale impl m)) = \<lfloor>0.8 * sqrt ((1 - Alpha_m m) / Beta_m m)\<rfloor>"
proof -
  from retro have b: "Beta_m m > 0" "Alpha_m m \<le> 1"
    and le: "sqrt ((1 - Alpha_m m) / Beta_m m) \<le> float64 (CurrentN m)"
    by (simp_all add: retrograde_iff)
  from b have nn: "0 \<le> (1 - Alpha_m m) / Beta_m m" by (simp add: divide_nonneg_pos)
  then have pk: "peakN m = Fin (sqrt ((1 - Alpha_m m) / Beta_m m))"
    using b by (simp add: peakN_def go_sqrt_def not_less)
  have ag: "CalculatePeakCapacity (Alpha_m m) (Beta_m m) = peakN m"
    using b peakN_agrees[of m] by simp
  have s0: "0 \<le> sqrt ((1 - Alpha_m m) / Beta_m m)" using nn by simp
  have tn: "sint (toInt impl (xfloor (xtimes (peakN m) 0.8)))
            = \<lfloor>0.8 * sqrt ((1 - Alpha_m m) / Beta_m m)\<rfloor>"
    unfolding pk by (rule toInt_floor_peak[OF s0 le])
  have sh: "ShouldScale impl m =
      \<lparr>Decision = ShedLoad, TargetN = toInt impl (xfloor (xtimes (peakN m) 0.8)),
       PeakN = peakN m, InRetrograde = True, CostSavings = Fin 0, RiskLevel = ''HIGH''\<rparr>"
    using r retro by (simp add: ShouldScale_def Let_def)
  show ?thesis unfolding sh using tn pk ag by simp
qed

lemma floor_sqrt14: "\<lfloor>0.8 * sqrt 14\<rfloor> = (2::int)"
proof -
  have a: "(2.5::real) \<le> sqrt 14" by (rule real_le_rsqrt) (simp add: power2_eq_square)
  have b: "sqrt 14 < (3.75::real)" by (rule real_less_lsqrt) (simp_all add: power2_eq_square)
  from a b show ?thesis by (simp add: floor_eq_iff)
qed

lemma ShouldScale_S5:
  "3.0 \<le> R metricsS5 \<and> R metricsS5 < 4.0 \<and>
   float_ge (float64 (CurrentN metricsS5)) (peakN metricsS5) \<and>
   Decision (ShouldScale implAmd64 metricsS5) = ShedLoad \<and>
   TargetN (ShouldScale implAmd64 metricsS5) = 2 \<and>
   RiskLevel (ShouldScale implAmd64 metricsS5) = ''HIGH''"
proof -
  have q: "(1 - Alpha_m metricsS5) / Beta_m metricsS5 = 14" by (simp add: metricsS5_def)
  have r: "3.0 \<le> R metricsS5" "R metricsS5 < 4.0" by (simp_all add: metricsS5_def)
  have n: "float64 (CurrentN metricsS5) = 50" by (simp add: metricsS5_def float64_def)
  have "sqrt 14 \<le> (50::real)" by (rule real_le_lsqrt) simp_all
  then have retro: "float_ge (float64 (CurrentN metricsS5)) (peakN metricsS5)"
    by (simp add: retrograde_iff q n) (simp add: metricsS5_def)
  note th = ShouldScale_saturation_retrograde [OF r retro, of implAmd64, unfolded q floor_sqrt14]
  from th have c: "Decision (ShouldScale implAmd64 metricsS5) = ShedLoad"
    "RiskLevel (ShouldScale implAmd64 metricsS5) = ''HIGH''"
    "sint (TargetN (ShouldScale implAmd64 metricsS5)) = 2"
    by blast+
  have "sint (2 :: 64 word) = 2" by simp
  with c(3) have "TargetN (ShouldScale implAmd64 metricsS5) = 2"
    by (simp add: word_eq_iff_signed [where ?'a = int])
  with r retro c show ?thesis by simp
qed

text \<open>
  C3. The saturation-plus-retrograde row does not hold for every input with
  \<open>3.0 \<le> r < 4.0\<close> and \<open>CurrentN \<ge> N_peak\<close>, the peak being that of \<open>CalculatePeakCapacity\<close>.
  At \<open>\<alpha> = 1.5\<close>, \<open>\<beta> = 0.05\<close>, \<open>CurrentN = 50\<close>, \<open>r = 3.2\<close> the peak capacity is 0 and
  \<open>CurrentN\<close> is above it, so the row asks for the target \<open>\<lfloor>0.8 * 0\<rfloor> = 0\<close>; \<open>ShouldScale\<close>
  returns \<open>ShedLoad\<close> with risk level HIGH, but with the target 50, the row for an input
  that is not retrograde.
\<close>

theorem ShouldScale_retrograde_row_deadlock:
  "3.0 \<le> R metricsDeadlock \<and> R metricsDeadlock < 4.0 \<and>
   CalculatePeakCapacity (Alpha_m metricsDeadlock) (Beta_m metricsDeadlock) = Fin 0 \<and>
   float_ge (float64 (CurrentN metricsDeadlock))
     (CalculatePeakCapacity (Alpha_m metricsDeadlock) (Beta_m metricsDeadlock)) \<and>
   xfloor (xtimes (CalculatePeakCapacity (Alpha_m metricsDeadlock) (Beta_m metricsDeadlock)) 0.8)
     = Fin 0 \<and>
   Decision (ShouldScale impl metricsDeadlock) = ShedLoad \<and>
   RiskLevel (ShouldScale impl metricsDeadlock) = ''HIGH'' \<and>
   sint (TargetN (ShouldScale impl metricsDeadlock)) = 50"
  by (simp add: ShouldScale_def Let_def peakN_def go_sqrt_def metricsDeadlock_def metricsS5_def
      CalculatePeakCapacity_def float64_def)

text \<open>
  C4. The peak that \<open>ShouldScale\<close> computes inline is not \<open>CalculatePeakCapacity\<close> for all
  \<open>\<alpha>\<close> and \<open>\<beta>\<close>: the inline code has no case for \<open>\<alpha> \<ge> 1\<close>. At \<open>\<alpha> = 1.5\<close>, \<open>\<beta> = 0.05\<close>,
  \<open>CurrentN = 50\<close>, \<open>r = 3.2\<close> it takes the square root of a negative number: the returned
  peak is \<^verbatim>\<open>NaN\<close>, the input is not counted as retrograde and the target stays 50, while
  \<open>CalculatePeakCapacity\<close> returns 0 and \<open>IsRetrograde\<close> is true. (The two agree wherever
  \<open>\<beta> \<le> 0\<close> or \<open>\<alpha> \<le> 1\<close>, lemma \<open>peakN_agrees\<close>.)
\<close>

theorem ShouldScale_peak_disagrees:
  "PeakN (ShouldScale impl metricsDeadlock) = NaN \<and>
   \<not> InRetrograde (ShouldScale impl metricsDeadlock) \<and>
   TargetN (ShouldScale impl metricsDeadlock) = 50 \<and>
   CalculatePeakCapacity (Alpha_m metricsDeadlock) (Beta_m metricsDeadlock) = Fin 0 \<and>
   IsRetrograde (CurrentN metricsDeadlock) (Alpha_m metricsDeadlock) (Beta_m metricsDeadlock)"
  by (simp add: ShouldScale_def Let_def peakN_def go_sqrt_def metricsDeadlock_def metricsS5_def
      CalculatePeakCapacity_def IsRetrograde_def float64_def)

subsection \<open>float64 arithmetic\<close>

text \<open>
  The rounding is what it should be: \<open>bitLength\<close> and \<open>ilog2\<close> bracket their argument
  between two powers of 2, and \<open>round64 x\<close> is a multiple of the spacing \<open>q\<close> at \<open>x\<close> that is
  no further than \<open>q/2\<close> from \<open>x\<close>.
\<close>

lemma bitLength_nonpos: "n \<le> 0 \<Longrightarrow> bitLength n = 0"
  by (simp add: bitLength.simps)

lemma bitLength_pos: "0 < n \<Longrightarrow> bitLength n = 1 + bitLength (n div 2)"
  by (subst bitLength.simps) simp

lemma bitLength_bounds:
  "0 < n \<Longrightarrow> 1 \<le> bitLength n \<and> 2 ^ nat (bitLength n - 1) \<le> n \<and> n < 2 ^ nat (bitLength n)"
proof (induction n rule: bitLength.induct)
  case (1 n)
  show ?case
  proof (cases "n div 2 = 0")
    case True
    with "1.prems" have "n = 1" by presburger
    then show ?thesis by (simp add: bitLength_pos bitLength_nonpos)
  next
    case False
    with "1.prems" have h: "0 < n div 2" by presburger
    from "1.prems" have np: "\<not> n \<le> 0" by simp
    define k where "k = bitLength (n div 2)"
    from "1.IH"[OF np h] have k: "1 \<le> k" "2 ^ nat (k - 1) \<le> n div 2" "n div 2 < 2 ^ nat k"
      by (simp_all add: k_def)
    have b: "bitLength n = 1 + k" using "1.prems" by (simp add: bitLength_pos k_def)
    have e1: "nat (1 + k - 1) = Suc (nat (k - 1))" using k(1) by simp
    have e2: "nat (1 + k) = Suc (nat k)" using k(1) by simp
    have "2 * (n div 2) \<le> n" "n < 2 * (n div 2) + 2" by presburger+
    with k show ?thesis unfolding b e1 e2 by simp
  qed
qed

lemma pow2_nat: "0 \<le> k \<Longrightarrow> pow2 k = 2 ^ nat k"
  by (simp add: pow2_def)

lemma pow2_pos: "0 < pow2 k"
  by (simp add: pow2_def)

lemma pow2_Suc: "pow2 (k + 1) = 2 * pow2 k"
proof (cases "0 \<le> k")
  case True
  then have "nat (k + 1) = Suc (nat k)" by simp
  with True show ?thesis by (simp add: pow2_def)
next
  case False
  then have "nat (- k) = Suc (nat (- (k + 1)))" by simp
  with False show ?thesis by (simp add: pow2_def)
qed

lemma pow2_neg: "pow2 (- k) = 1 / pow2 k"
  by (cases "k = 0") (auto simp add: pow2_def)

lemma ilog2_bounds:
  assumes x: "0 < x"
  shows "pow2 (ilog2 x) \<le> x \<and> x < pow2 (ilog2 x + 1)"
proof (cases "1 \<le> x")
  case True
  define n where "n = \<lfloor>x\<rfloor>"
  have n: "0 < n" using True by (simp add: n_def)
  from bitLength_bounds[OF n] have b: "1 \<le> bitLength n" "2 ^ nat (bitLength n - 1) \<le> n"
    "n < 2 ^ nat (bitLength n)" by simp_all
  have lo: "real_of_int n \<le> x" by (simp add: n_def)
  have hi: "x < real_of_int n + 1" by (simp add: n_def)
  have "(2::real) ^ nat (bitLength n - 1) \<le> real_of_int n" using b(2) by simp
  then have l: "2 ^ nat (bitLength n - 1) \<le> x" using lo by (rule order_trans)
  have "n + 1 \<le> 2 ^ nat (bitLength n)" using b(3) by simp
  then have "real_of_int (n + 1) \<le> (2::real) ^ nat (bitLength n)"
    by (simp only: of_int_le_numeral_power_cancel_iff)
  then have u: "x < 2 ^ nat (bitLength n)" using hi by simp
  have i: "ilog2 x = bitLength n - 1" using True by (simp add: ilog2_def n_def)
  show ?thesis unfolding i using l u b(1) by (simp add: pow2_nat)
next
  case False
  define y where "y = 1 / x"
  define m where "m = \<lceil>y\<rceil> - 1"
  have y1: "1 < y" using False x by (simp add: y_def)
  then have "2 \<le> \<lceil>y\<rceil>" by (simp add: le_ceiling_iff)
  then have m: "0 < m" by (simp add: m_def)
  from bitLength_bounds[OF m] have b: "1 \<le> bitLength m" "2 ^ nat (bitLength m - 1) \<le> m"
    "m < 2 ^ nat (bitLength m)" by simp_all
  have lo: "real_of_int m < y" unfolding m_def by linarith
  have hi: "y \<le> real_of_int m + 1" unfolding m_def by (simp add: le_of_int_ceiling)
  have "(2::real) ^ nat (bitLength m - 1) \<le> real_of_int m" using b(2) by simp
  then have l: "2 ^ nat (bitLength m - 1) < y" using lo by (rule order_le_less_trans)
  have "m + 1 \<le> 2 ^ nat (bitLength m)" using b(3) by simp
  then have "real_of_int (m + 1) \<le> (2::real) ^ nat (bitLength m)"
    by (simp only: of_int_le_numeral_power_cancel_iff)
  then have u: "y \<le> 2 ^ nat (bitLength m)" using hi by simp
  have i: "ilog2 x = - bitLength m" using False by (simp add: ilog2_def m_def y_def)
  have p1: "pow2 (- bitLength m) = 1 / 2 ^ nat (bitLength m)"
    using b(1) by (simp add: pow2_neg pow2_nat)
  have "pow2 (- bitLength m + 1) = pow2 (- (bitLength m - 1))" by simp
  also have "\<dots> = 1 / 2 ^ nat (bitLength m - 1)" using b(1) by (simp only: pow2_neg) (simp add: pow2_nat)
  finally have p2: "pow2 (- bitLength m + 1) = 1 / 2 ^ nat (bitLength m - 1)" .
  have xy: "x = 1 / y" using x by (simp add: y_def)
  have ypos: "0 < y" using y1 by simp
  have "1 / 2 ^ nat (bitLength m) \<le> 1 / y" using u ypos by (simp add: frac_le)
  moreover have "1 / y < 1 / 2 ^ nat (bitLength m - 1)" using l ypos by (simp add: frac_less2)
  ultimately have "1 / 2 ^ nat (bitLength m) \<le> x \<and> x < 1 / 2 ^ nat (bitLength m - 1)"
    by (simp add: xy)
  then show ?thesis unfolding i p1 p2 .
qed

lemma roundEven_near: "\<bar>real_of_int (roundEven y) - y\<bar> \<le> 1 / 2"
proof -
  have "real_of_int \<lfloor>y\<rfloor> \<le> y" "y < real_of_int \<lfloor>y\<rfloor> + 1" by linarith+
  then show ?thesis by (auto simp add: roundEven_def Let_def)
qed

lemma round64_near:
  assumes "x \<noteq> 0"
  defines "q \<equiv> pow2 (max (ilog2 \<bar>x\<bar>) (- 1022) - 52)"
  shows "round64 x = real_of_int (roundEven (x / q)) * q \<and> \<bar>round64 x - x\<bar> \<le> q / 2"
proof -
  have q: "0 < q" by (simp add: q_def pow2_pos)
  have r: "round64 x = real_of_int (roundEven (x / q)) * q"
    using assms(1) by (simp add: round64_def Let_def q_def)
  have "\<bar>real_of_int (roundEven (x / q)) - x / q\<bar> * q \<le> (1 / 2) * q"
    using roundEven_near[of "x / q"] q by (intro mult_right_mono) simp_all
  moreover have "\<bar>real_of_int (roundEven (x / q)) - x / q\<bar> * q
                 = \<bar>real_of_int (roundEven (x / q)) * q - x\<bar>"
  proof -
    have "\<bar>real_of_int (roundEven (x / q)) - x / q\<bar> * q
          = \<bar>(real_of_int (roundEven (x / q)) - x / q) * q\<bar>" using q by (simp add: abs_mult)
    also have "(real_of_int (roundEven (x / q)) - x / q) * q
               = real_of_int (roundEven (x / q)) * q - x" using q by (simp add: algebra_simps)
    finally show ?thesis .
  qed
  ultimately show ?thesis using r by simp
qed









subsection \<open>The USL fitter\<close>

















text \<open>The exact model beyond its peak.\<close>

lemma uslModel_retrograde:
  assumes lam: "0 < lambda" and al: "0 \<le> alpha" "alpha < 1" and be: "0 < beta"
    and a1: "1 \<le> a" and ab: "a \<le> b" and peak: "1 - alpha \<le> beta * (a * a)"
  shows "uslModel b lambda alpha beta \<le> uslModel a lambda alpha beta"
proof -
  define Da where "Da = 1 + alpha * (a - 1) + beta * a * (a - 1)"
  define Db where "Db = 1 + alpha * (b - 1) + beta * b * (b - 1)"
  have b1: "1 \<le> b" using a1 ab by simp
  have "0 \<le> alpha * (a - 1)" "0 \<le> beta * a * (a - 1)" using al be a1 by simp_all
  then have Da: "0 < Da" by (simp add: Da_def)
  have "0 \<le> alpha * (b - 1)" "0 \<le> beta * b * (b - 1)" using al be b1 by simp_all
  then have Db: "0 < Db" by (simp add: Db_def)
  have "a * a \<le> a * b" using a1 ab by (simp add: mult_left_mono)
  then have "beta * (a * a) \<le> beta * (a * b)" using be by (simp add: mult_left_mono)
  with peak have g: "0 \<le> beta * (a * b) - (1 - alpha)" by simp
  have "a * Db - b * Da = (b - a) * (beta * (a * b) - (1 - alpha))"
    by (simp add: Da_def Db_def algebra_simps)
  also have "\<dots> \<ge> 0" using g ab by (simp add: mult_nonneg_nonneg)
  finally have key: "b * Da \<le> a * Db" by simp
  have "b / Db \<le> a / Da" using key Da Db by (simp add: field_simps)
  then have "lambda * (b / Db) \<le> lambda * (a / Da)"
    by (rule mult_left_mono) (use lam in simp)
  then show ?thesis by (simp add: uslModel_def Da_def Db_def)
qed

text \<open>
  C6, as amended. For coefficients with \<open>\<lambda> > 0\<close>, \<open>\<beta> > 0\<close> and \<open>0 \<le> \<alpha> < 1\<close>, and every
  integer \<open>n\<close> at or above the peak capacity \<open>sqrt ((1 - \<alpha>)/\<beta>)\<close>: the predicted throughput
  at \<open>n + k\<close> is at most the one at \<open>n\<close>, for every \<open>k \<ge> 1\<close>.
\<close>

theorem retrograde_beyond_peak:
  assumes lam: "0 < Lambda c" and al: "0 \<le> Alpha c" "Alpha c < 1" and be: "0 < Beta c"
    and pk: "CalculatePeakCapacity (Alpha c) (Beta c) = Fin p"
    and n: "p \<le> real_of_int n" and k: "1 \<le> k"
  shows "PredictThroughput c (n + k) \<le> PredictThroughput c n"
proof -
  have x: "0 < (1 - Alpha c) / Beta c" using al be by simp
  from pk al be x have p: "p = sqrt ((1 - Alpha c) / Beta c)"
    by (simp add: CalculatePeakCapacity_def go_sqrt_def not_less split: if_splits)
  have ppos: "0 < p" using x by (simp add: p)
  with n have "0 < real_of_int n" by linarith
  then have "0 < n" by simp
  then have a1: "1 \<le> real_of_int n" by simp
  have "(1 - Alpha c) / Beta c = p * p" using al be by (simp add: p)
  also have "\<dots> \<le> real_of_int n * real_of_int n" using n ppos by (simp add: mult_mono)
  finally have "1 - Alpha c \<le> real_of_int n * real_of_int n * Beta c"
    using be by (simp add: pos_divide_le_eq)
  then have peak: "1 - Alpha c \<le> Beta c * (real_of_int n * real_of_int n)"
    by (simp add: mult.commute)
  have ab: "real_of_int n \<le> real_of_int (n + k)" using k by simp
  show ?thesis unfolding PredictThroughput_def
    by (rule uslModel_retrograde[OF lam al be a1 ab peak])
qed

lemma floor_sqrt15: "\<lfloor>sqrt 15\<rfloor> = (3::int)"
proof -
  have a: "(3::real) \<le> sqrt 15" by (rule real_le_rsqrt) (simp add: power2_eq_square)
  have b: "sqrt 15 < (4::real)" by (rule real_less_lsqrt) (simp_all add: power2_eq_square)
  from a b show ?thesis by (simp add: floor_eq_iff)
qed

lemma peak_coeffsPeak15:
  "CalculatePeakCapacity (Alpha coeffsPeak15) (Beta coeffsPeak15) = Fin (sqrt 15)"
  by (simp add: CalculatePeakCapacity_def go_sqrt_def coeffsPeak15_def)

theorem retrograde_beyond_peak_witness:
  "0 < Lambda coeffsPeak15 \<and> 0 \<le> Alpha coeffsPeak15 \<and> Alpha coeffsPeak15 < 1 \<and>
   0 < Beta coeffsPeak15 \<and>
   CalculatePeakCapacity (Alpha coeffsPeak15) (Beta coeffsPeak15) = Fin (sqrt 15) \<and>
   sqrt 15 \<le> real_of_int 4 \<and> (1::int) \<le> 1 \<and>
   PredictThroughput coeffsPeak15 (4 + 1) \<le> PredictThroughput coeffsPeak15 4"
proof -
  have h: "0 < Lambda coeffsPeak15" "0 \<le> Alpha coeffsPeak15" "Alpha coeffsPeak15 < 1"
    "0 < Beta coeffsPeak15" by (simp_all add: coeffsPeak15_def)
  have n: "sqrt 15 \<le> real_of_int 4" by (rule real_le_lsqrt) simp_all
  have k: "(1::int) \<le> 1" by simp
  from retrograde_beyond_peak [OF h peak_coeffsPeak15 n k] h peak_coeffsPeak15 n
  show ?thesis by simp
qed

text \<open>
  C6 as stated fails at the floor of the peak. With \<open>\<lambda> = 1\<close>, \<open>\<alpha> = 0\<close>, \<open>\<beta> = 1/15\<close> the
  peak is \<open>sqrt 15\<close>, its floor is 3, and the prediction at 3 (15/7) is below the
  prediction at 4 (20/9).
\<close>

theorem peak_agreement_counterexample:
  "0 < Lambda coeffsPeak15 \<and> 0 < Beta coeffsPeak15 \<and> Alpha coeffsPeak15 < 1 \<and>
   CalculatePeakCapacity (Alpha coeffsPeak15) (Beta coeffsPeak15) = Fin (sqrt 15) \<and>
   \<lfloor>sqrt 15\<rfloor> = (3::int) \<and>
   \<not> PredictThroughput coeffsPeak15 3 \<ge> PredictThroughput coeffsPeak15 (3 + 1)"
proof -
  have "PredictThroughput coeffsPeak15 3 = 15 / 7"
    by (simp add: PredictThroughput_def uslModel_def coeffsPeak15_def)
  moreover have "PredictThroughput coeffsPeak15 (3 + 1) = 20 / 9"
    by (simp add: PredictThroughput_def uslModel_def coeffsPeak15_def)
  ultimately show ?thesis
    using peak_coeffsPeak15 floor_sqrt15 by (simp add: coeffsPeak15_def)
qed

text \<open>
  Why \<open>\<alpha>\<close> must not be negative: with \<open>\<alpha> = -10\<close>, \<open>\<beta> = 1/10\<close> the denominator of the
  model changes sign beyond the peak, and the prediction rises from a negative value at
  99 to 100 at 100.
\<close>

lemma negative_alpha_not_retrograde:
  "CalculatePeakCapacity (Alpha coeffsNegAlpha) (Beta coeffsNegAlpha) = Fin (sqrt 110) \<and>
   sqrt 110 \<le> real_of_int 99 \<and>
   PredictThroughput coeffsNegAlpha 99 < 0 \<and>
   PredictThroughput coeffsNegAlpha (99 + 1) = 100"
proof -
  have "sqrt 110 \<le> real_of_int 99" by (rule real_le_lsqrt) simp_all
  then show ?thesis
    by (simp add: CalculatePeakCapacity_def go_sqrt_def coeffsNegAlpha_def
        PredictThroughput_def uslModel_def)
qed

subsection \<open>The tail-divergence tracker\<close>

lemma New_inv: "trackerInv (NewTailDivergenceTracker cap)"
  by (simp add: trackerInv_def NewTailDivergenceTracker_def Let_def)

lemma go_rem_range: "0 \<le> a \<Longrightarrow> 0 < b \<Longrightarrow> 0 \<le> go_rem a b \<and> go_rem a b < b"
  by (cases "a = 0") (simp_all add: go_rem_def)

lemma Record_inv:
  assumes inv: "trackerInv t" and x: "0 \<le> x"
  shows "\<exists>t'. Record t x = Inr t' \<and> trackerInv t'"
proof -
  from inv have w: "0 \<le> writeIndex t" "writeIndex t < int (length (samples t))"
    and m: "0 < maxSamples t" by (simp_all add: trackerInv_def)
  have r: "0 \<le> go_rem (writeIndex t + 1) (maxSamples t) \<and>
           go_rem (writeIndex t + 1) (maxSamples t) < maxSamples t"
    using w m by (intro go_rem_range) simp_all
  have s: "\<forall>y \<in> set ((samples t)[nat (writeIndex t) := x]). 0 \<le> y"
  proof
    fix y assume "y \<in> set ((samples t)[nat (writeIndex t) := x])"
    then have "y \<in> insert x (set (samples t))" using set_update_subset_insert by fast
    with x inv show "0 \<le> y" by (auto simp add: trackerInv_def)
  qed
  from w m r s inv show ?thesis by (simp add: Record_def trackerInv_def)
qed

lemma RecordAll_inv:
  "trackerInv t \<Longrightarrow> \<forall>x \<in> set xs. 0 \<le> x \<Longrightarrow> \<exists>t'. RecordAll t xs = Inr t' \<and> trackerInv t'"
proof (induction xs arbitrary: t)
  case Nil
  then show ?case by simp
next
  case (Cons x xs)
  from Cons.prems have "0 \<le> x" by simp
  from Record_inv[OF Cons.prems(1) this] obtain t1 where
    t1: "Record t x = Inr t1" "trackerInv t1" by blast
  from Cons.IH[OF t1(2)] Cons.prems(2) obtain t' where
    "RecordAll t1 xs = Inr t'" "trackerInv t'" by auto
  with t1 show ?case by simp
qed

lemma floor_le_int: "x \<le> real_of_int m \<Longrightarrow> \<lfloor>x\<rfloor> \<le> m"
  by (subst floor_le_iff) linarith

lemma percentile_inv:
  assumes inv: "trackerInv t" and p: "0 \<le> p" "p \<le> 1"
  shows "percentile t p =
           (if effectiveSampleCount t = 0 then Inr 0
            else Inr (sort (take (nat (effectiveSampleCount t)) (samples t))
                        ! nat \<lfloor>real_of_int (effectiveSampleCount t - 1) * p\<rfloor>))"
proof (cases "effectiveSampleCount t = 0")
  case True
  then show ?thesis by (simp add: percentile_def)
next
  case False
  define k where "k = effectiveSampleCount t"
  from inv have k0: "0 \<le> k" and kl: "k \<le> int (length (samples t))"
    by (simp_all add: k_def effectiveSampleCount_def trackerInv_def)
  with False have k1: "1 \<le> k" by (simp add: k_def)
  have nn: "0 \<le> real_of_int (k - 1) * p" using k1 p by simp
  have "real_of_int (k - 1) * p \<le> real_of_int (k - 1) * 1"
    using k1 p by (intro mult_left_mono) simp_all
  then have "\<lfloor>real_of_int (k - 1) * p\<rfloor> \<le> k - 1" by (intro floor_le_int) simp
  moreover have "0 \<le> \<lfloor>real_of_int (k - 1) * p\<rfloor>" using nn by simp
  moreover have "truncToZero (real_of_int (k - 1) * p) = \<lfloor>real_of_int (k - 1) * p\<rfloor>"
    using nn by (simp add: truncToZero_def)
  ultimately show ?thesis using False k0 kl
    by (simp add: percentile_def Let_def k_def)
qed

text \<open>
  C9. Into a new tracker of any capacity, record any list of latencies none of which is
  negative. No call panics, and \<open>TailDivergenceRatio\<close> of the tracker returns a value of at
  least 1: exactly 1 when P50 is 0, and P99/P50 otherwise, with \<open>0 \<le> P50 \<le> P99\<close>.
\<close>

theorem TailDivergenceRatio_ge_1:
  assumes nonneg: "\<forall>x \<in> set latencies. 0 \<le> x"
  shows "\<exists>t p50 p99 ratio.
           RecordAll (NewTailDivergenceTracker maxSamples0) latencies = Inr t \<and>
           P50 t = Inr p50 \<and> P99 t = Inr p99 \<and> TailDivergenceRatio t = Inr ratio \<and>
           0 \<le> p50 \<and> p50 \<le> p99 \<and> 1 \<le> ratio \<and>
           (p50 = 0 \<longrightarrow> ratio = 1) \<and>
           (p50 \<noteq> 0 \<longrightarrow> ratio = real_of_int p99 / real_of_int p50)"
proof -
  from RecordAll_inv[OF New_inv nonneg] obtain t where
    t: "RecordAll (NewTailDivergenceTracker maxSamples0) latencies = Inr t" and inv: "trackerInv t"
    by blast
  define k where "k = effectiveSampleCount t"
  define sorted where "sorted = sort (take (nat k) (samples t))"
  define i50 where "i50 = nat \<lfloor>real_of_int (k - 1) * 0.50\<rfloor>"
  define i99 where "i99 = nat \<lfloor>real_of_int (k - 1) * 0.99\<rfloor>"
  define p50 where "p50 = (if k = 0 then 0 else sorted ! i50)"
  define p99 where "p99 = (if k = 0 then 0 else sorted ! i99)"
  have P50: "P50 t = Inr p50"
    using percentile_inv[OF inv, of "0.50"]
    by (simp add: P50_def p50_def sorted_def i50_def k_def)
  have P99: "P99 t = Inr p99"
    using percentile_inv[OF inv, of "0.99"]
    by (simp add: P99_def p99_def sorted_def i99_def k_def)
  have ord: "0 \<le> p50 \<and> p50 \<le> p99"
  proof (cases "k = 0")
    case True
    then show ?thesis by (simp add: p50_def p99_def)
  next
    case False
    from inv have k0: "0 \<le> k" and kl: "k \<le> int (length (samples t))"
      by (simp_all add: k_def effectiveSampleCount_def trackerInv_def)
    with False have k1: "1 \<le> k" by simp
    have len: "length sorted = nat k" using kl k0 by (simp add: sorted_def)
    have "real_of_int (k - 1) * 0.50 \<le> real_of_int (k - 1) * 0.99"
      using k1 by (intro mult_left_mono) simp_all
    then have "\<lfloor>real_of_int (k - 1) * 0.50\<rfloor> \<le> \<lfloor>real_of_int (k - 1) * 0.99\<rfloor>"
      by (rule floor_mono)
    then have i: "i50 \<le> i99" by (simp add: i50_def i99_def nat_mono)
    have "real_of_int (k - 1) * 0.99 \<le> real_of_int (k - 1) * 1"
      using k1 by (intro mult_left_mono) simp_all
    then have "\<lfloor>real_of_int (k - 1) * 0.99\<rfloor> \<le> k - 1" by (intro floor_le_int) simp
    then have j: "i99 < length sorted" using k1 by (simp add: i99_def len)
    have "sorted ! i50 \<le> sorted ! i99"
      by (rule sorted_nth_mono[OF _ i j]) (simp add: sorted_def)
    moreover have "sorted ! i50 \<in> set sorted" using i j by simp
    then have "sorted ! i50 \<in> set (samples t)"
      unfolding sorted_def using set_take_subset by fastforce
    with inv have "0 \<le> sorted ! i50" by (simp add: trackerInv_def)
    ultimately show ?thesis using False by (simp add: p50_def p99_def)
  qed
  define ratio where "ratio = (if p50 = 0 then 1 else real_of_int p99 / real_of_int p50)"
  have R: "TailDivergenceRatio t = Inr ratio"
    by (simp add: TailDivergenceRatio_def P50 P99 ratio_def)
  have "1 \<le> ratio"
  proof (cases "p50 = 0")
    case True
    then show ?thesis by (simp add: ratio_def)
  next
    case False
    with ord have "0 < p50" by simp
    with ord False show ?thesis by (simp add: ratio_def)
  qed
  with t P50 P99 R ord show ?thesis by (auto simp add: ratio_def)
qed

theorem TailDivergenceRatio_ge_1_witness:
  "\<exists>t ratio. RecordAll (NewTailDivergenceTracker 3) latenciesSkewed = Inr t \<and>
      TailDivergenceRatio t = Inr ratio \<and> 1 \<le> ratio"
proof -
  have h: "\<forall>x \<in> set latenciesSkewed. 0 \<le> x" by (simp add: latenciesSkewed_def)
  from TailDivergenceRatio_ge_1 [OF h, of 3] show ?thesis by blast
qed

lemma skewed_values:
  "RecordAll (NewTailDivergenceTracker 3) latenciesSkewed =
     Inr \<lparr>samples = [7, 10, 10000], maxSamples = 3, writeIndex = 1, sampleCount = 4,
          cachedP50 = 0, cachedP99 = 0, cachedP999 = 0, cacheValid = False\<rparr>"
  by (simp add: NewTailDivergenceTracker_def latenciesSkewed_def Record_def go_rem_def
      numeral_3_eq_3)

end
